theory Spec2Isabelle
  imports Complex_Main
begin

section \<open>Footprint analysis by KPI: the classifier and the accumulator\<close>

text \<open>
  A shallow embedding of \<^verbatim>\<open>src/footprint_analyzer.py\<close>. Python floats are modelled as
  exact real numbers: no rounding, no NaN and no infinities; the classifier is modelled a
  second time with the rounding of its arithmetic made explicit. A footprint is a pair of
  operation labels, as the keys of the directly-follows dictionary are. The data frame
  operations of pandas (selection of rows, renaming, grouping with means) are written out
  on lists of rows; every column the code reads is taken to exist, so the exceptions left
  are the IndexError of an out-of-range read and whatever the discovery primitive raises.
\<close>

type_synonym footprint = "string \<times> string"

datatype py_error = IndexError | ValueError

subsection \<open>The colour palettes and \<^verbatim>\<open>determine_color\<close>\<close>

definition red_pallete :: "string list" where
  "red_pallete = [''#F15A59'', ''#ED2B2A'', ''#D21312'', ''#850000'']"

definition green_pallete :: "string list" where
  "green_pallete = [''#D0E7D2'', ''#B0D9B1'', ''#79AC78'', ''#618264'']"

text \<open>
  The two halves of \<^verbatim>\<open>determine_color\<close> (the branch under \<^verbatim>\<open>reverse == True\<close> and the code
  after it) are written out as the source has them, comparison by comparison. Every
  palette index is a literal below the palette's length, so no lookup can fail.
\<close>

definition determine_color :: "real \<Rightarrow> real \<Rightarrow> real \<Rightarrow> real \<Rightarrow> bool \<Rightarrow> string" where
  "determine_color val upper_bound lower_bound sd reverse =
     (if reverse then
        (if val > upper_bound then
           (if val \<le> upper_bound + sd then green_pallete ! 0
            else if val \<le> upper_bound + 2 * sd then green_pallete ! 1
            else if val \<le> upper_bound + 3 * sd then green_pallete ! 2
            else green_pallete ! 3)
         else if val < lower_bound then
           (if val \<ge> lower_bound - sd then red_pallete ! 0
            else if val \<ge> lower_bound - 2 * sd then red_pallete ! 1
            else if val \<ge> lower_bound - 3 * sd then red_pallete ! 2
            else red_pallete ! 3)
         else ''blue'')
      else
        (if val > upper_bound then
           (if val \<le> upper_bound + sd then red_pallete ! 0
            else if val \<le> upper_bound + 2 * sd then red_pallete ! 1
            else if val \<le> upper_bound + 3 * sd then red_pallete ! 2
            else red_pallete ! 3)
         else if val < lower_bound then
           (if val \<ge> lower_bound - sd then green_pallete ! 0
            else if val \<ge> lower_bound - 2 * sd then green_pallete ! 1
            else if val \<ge> lower_bound - 3 * sd then green_pallete ! 2
            else green_pallete ! 3)
         else ''blue''))"

subsection \<open>\<^verbatim>\<open>calculate_outlier_footprints\<close>\<close>

text \<open>
  The loop runs over \<^verbatim>\<open>range(len(values))\<close> and reads \<^verbatim>\<open>values[i]\<close> and
  \<^verbatim>\<open>footprints[i]\<close>; the second read raises IndexError when there are fewer footprints
  than values. The bounds handed to \<^verbatim>\<open>determine_color\<close> depend on whether the KPI is OEE.
\<close>

fun outlier_loop ::
  "footprint list \<Rightarrow> real list \<Rightarrow> real \<Rightarrow> real \<Rightarrow> string \<Rightarrow> nat list \<Rightarrow>
   footprint list \<times> string list \<Rightarrow> py_error + (footprint list \<times> string list)" where
  "outlier_loop footprints values mean sd kpi [] acc = Inr acc"
| "outlier_loop footprints values mean sd kpi (i # rest) (outliers, outlier_colors) =
     (if length footprints \<le> i then Inl IndexError
      else
        (let val = values ! i;
             fp = footprints ! i;
             fp_color =
               (if kpi = ''OEE''
                then determine_color val (mean + (sd / 2)) (mean - sd) sd True
                else determine_color val (mean + sd) (mean - (sd / 2)) sd False)
         in if fp_color \<noteq> ''blue''
            then outlier_loop footprints values mean sd kpi rest
                   (outliers @ [fp], outlier_colors @ [fp_color])
            else outlier_loop footprints values mean sd kpi rest (outliers, outlier_colors)))"

definition calculate_outlier_footprints ::
  "footprint list \<Rightarrow> real list \<Rightarrow> real \<Rightarrow> real \<Rightarrow> string \<Rightarrow>
   py_error + (footprint list \<times> string list)" where
  "calculate_outlier_footprints footprints values mean sd kpi =
     outlier_loop footprints values mean sd kpi [0..<length values] ([], [])"

subsection \<open>Reading a colour back as a band\<close>

text \<open>
  The severity of a colour is its position in its palette, counted from one; the neutral
  sentinel (and any other string) has severity zero. \<open>severity_step\<close> follows the
  wording of the specification: how many spreads a distance beyond the bound spans,
  clamped at four. \<open>swap_pallete\<close> exchanges the two palettes index by index.
\<close>

definition severity :: "string \<Rightarrow> nat" where
  "severity c =
     (if c = red_pallete ! 0 \<or> c = green_pallete ! 0 then 1
      else if c = red_pallete ! 1 \<or> c = green_pallete ! 1 then 2
      else if c = red_pallete ! 2 \<or> c = green_pallete ! 2 then 3
      else if c = red_pallete ! 3 \<or> c = green_pallete ! 3 then 4
      else 0)"

definition severity_step :: "real \<Rightarrow> real \<Rightarrow> nat" where
  "severity_step sd d =
     (if d \<le> sd then 1 else if d \<le> 2 * sd then 2 else if d \<le> 3 * sd then 3 else 4)"

definition swap_pallete :: "string \<Rightarrow> string" where
  "swap_pallete c =
     (if c = red_pallete ! 0 then green_pallete ! 0
      else if c = red_pallete ! 1 then green_pallete ! 1
      else if c = red_pallete ! 2 then green_pallete ! 2
      else if c = red_pallete ! 3 then green_pallete ! 3
      else if c = green_pallete ! 0 then red_pallete ! 0
      else if c = green_pallete ! 1 then red_pallete ! 1
      else if c = green_pallete ! 2 then red_pallete ! 2
      else if c = green_pallete ! 3 then red_pallete ! 3
      else c)"

definition upper_of :: "real \<Rightarrow> real \<Rightarrow> bool \<Rightarrow> real" where
  "upper_of mean sd reversed = (if reversed then mean + (sd / 2) else mean + sd)"

definition lower_of :: "real \<Rightarrow> real \<Rightarrow> bool \<Rightarrow> real" where
  "lower_of mean sd reversed = (if reversed then mean - sd else mean - (sd / 2))"

subsection \<open>The classifier in floating point\<close>

text \<open>
  The thresholds \<^verbatim>\<open>determine_color\<close> compares with are sums and products of doubles, each
  rounded once. \<open>determine_color_fl\<close> is \<^verbatim>\<open>determine_color\<close> with every arithmetic result
  passed through the rounding \<open>fl\<close> of the number format; with \<open>fl\<close> the identity it is
  \<open>determine_color\<close> (lemma \<open>determine_color_fl_exact\<close>). \<open>upper_fl\<close> and
  \<open>lower_fl\<close> are the bounds as the callers compute them, \<^verbatim>\<open>mean + (sd / 2)\<close> and
  \<^verbatim>\<open>mean - sd\<close> for OEE, \<^verbatim>\<open>mean + sd\<close> and \<^verbatim>\<open>mean - (sd / 2)\<close> otherwise.
\<close>

definition determine_color_fl ::
  "(real \<Rightarrow> real) \<Rightarrow> real \<Rightarrow> real \<Rightarrow> real \<Rightarrow> real \<Rightarrow> bool \<Rightarrow> string" where
  "determine_color_fl fl val upper_bound lower_bound sd reverse =
     (if reverse then
        (if val > upper_bound then
           (if val \<le> fl (upper_bound + sd) then green_pallete ! 0
            else if val \<le> fl (upper_bound + fl (2 * sd)) then green_pallete ! 1
            else if val \<le> fl (upper_bound + fl (3 * sd)) then green_pallete ! 2
            else green_pallete ! 3)
         else if val < lower_bound then
           (if val \<ge> fl (lower_bound - sd) then red_pallete ! 0
            else if val \<ge> fl (lower_bound - fl (2 * sd)) then red_pallete ! 1
            else if val \<ge> fl (lower_bound - fl (3 * sd)) then red_pallete ! 2
            else red_pallete ! 3)
         else ''blue'')
      else
        (if val > upper_bound then
           (if val \<le> fl (upper_bound + sd) then red_pallete ! 0
            else if val \<le> fl (upper_bound + fl (2 * sd)) then red_pallete ! 1
            else if val \<le> fl (upper_bound + fl (3 * sd)) then red_pallete ! 2
            else red_pallete ! 3)
         else if val < lower_bound then
           (if val \<ge> fl (lower_bound - sd) then green_pallete ! 0
            else if val \<ge> fl (lower_bound - fl (2 * sd)) then green_pallete ! 1
            else if val \<ge> fl (lower_bound - fl (3 * sd)) then green_pallete ! 2
            else green_pallete ! 3)
         else ''blue''))"

definition upper_fl :: "(real \<Rightarrow> real) \<Rightarrow> real \<Rightarrow> real \<Rightarrow> bool \<Rightarrow> real" where
  "upper_fl fl mean sd reversed = (if reversed then fl (mean + fl (sd / 2)) else fl (mean + sd))"

definition lower_fl :: "(real \<Rightarrow> real) \<Rightarrow> real \<Rightarrow> real \<Rightarrow> bool \<Rightarrow> real" where
  "lower_fl fl mean sd reversed = (if reversed then fl (mean - sd) else fl (mean - fl (sd / 2)))"

text \<open>
  The steps against three given thresholds, upwards and downwards: the first threshold the
  value does not pass gives the step, and a value past all three gets 4.
\<close>

definition steps_above :: "real \<Rightarrow> real \<Rightarrow> real \<Rightarrow> real \<Rightarrow> nat" where
  "steps_above v t1 t2 t3 = (if v \<le> t1 then 1 else if v \<le> t2 then 2 else if v \<le> t3 then 3 else 4)"

definition steps_below :: "real \<Rightarrow> real \<Rightarrow> real \<Rightarrow> real \<Rightarrow> nat" where
  "steps_below v t1 t2 t3 = (if v \<ge> t1 then 1 else if v \<ge> t2 then 2 else if v \<ge> t3 then 3 else 4)"

text \<open>
  Rounding to the nearest double (binary64), ties to even: the value is cut to 53
  significant bits. The exponent range is taken unbounded, so there is no overflow and
  there are no subnormal numbers.
\<close>

definition round_half_even :: "real \<Rightarrow> int" where
  "round_half_even x =
     (let f = \<lfloor>x\<rfloor>
      in if x - of_int f < 1 / 2 then f
         else if x - of_int f > 1 / 2 then f + 1
         else if even f then f else f + 1)"

definition round_double :: "real \<Rightarrow> real" where
  "round_double x =
     (if x = 0 then 0
      else (let e = \<lfloor>log 2 \<bar>x\<bar>\<rfloor> - 52
            in of_int (round_half_even (x / power_int 2 e)) * power_int 2 e))"

text \<open>
  Four doubles: \<open>tenth\<close> is the double nearest to 0.1 (what Python reads for \<^verbatim>\<open>0.1\<close>),
  \<open>fifth\<close> is the one nearest to 0.2, \<open>three_tenths_up\<close> is 0.30000000000000004 and
  \<open>one_and_ulp\<close> is 1.0000000000000002, the double after 1.
\<close>

definition tenth :: real where
  "tenth = 3602879701896397 / 2 ^ 55"

definition fifth :: real where
  "fifth = 3602879701896397 / 2 ^ 54"

definition three_tenths_up :: real where
  "three_tenths_up = 5404319552844596 / 2 ^ 54"

definition one_and_ulp :: real where
  "one_and_ulp = 4503599627370497 / 2 ^ 52"

subsection \<open>The production data frame\<close>

text \<open>
  A row of the data frame holds its cells by column label, in three typed families: the
  text columns (\<^verbatim>\<open>'Contract'\<close>, \<^verbatim>\<open>'Operation RelNr'\<close>), the date columns
  (\<^verbatim>\<open>'End Date Actual'\<close>, \<^verbatim>\<open>'Start Date Actual'\<close>, ...; \<open>None\<close> is the missing value NaT)
  and the numeric columns (\<^verbatim>\<open>'OEE'\<close>, \<^verbatim>\<open>'Rejected Materials'\<close>, and the durations
  \<^verbatim>\<open>'Lead Time'\<close> and \<^verbatim>\<open>'Malfunction Duration'\<close> in seconds). The KPI columns are taken to
  be populated. A data frame is the list of its rows.
\<close>

record row =
  text_col :: "string \<Rightarrow> string"
  date_col :: "string \<Rightarrow> int option"
  num_col :: "string \<Rightarrow> real"

type_synonym dataframe = "row list"

text \<open>
  What the discovery primitive reads of a frame: the three columns it expects under the
  names \<^verbatim>\<open>'time:timestamp'\<close>, \<^verbatim>\<open>'case:concept:name'\<close> and \<^verbatim>\<open>'concept:name'\<close>.
\<close>

record event =
  time_timestamp :: "int option"
  case_concept_name :: string
  concept_name :: string

text \<open>
  \<^verbatim>\<open>rename(columns={time: 'time:timestamp', case_id: 'case:concept:name',
  activity: 'concept:name'})\<close>: the column called \<open>time\<close> becomes the timestamp, the one
  called \<open>case_id\<close> the case and the one called \<open>activity\<close> the activity.
\<close>

definition rename_columns :: "string \<Rightarrow> string \<Rightarrow> string \<Rightarrow> dataframe \<Rightarrow> event list" where
  "rename_columns time case_id activity df =
     map (\<lambda>r. \<lparr>time_timestamp = date_col r time,
                case_concept_name = text_col r case_id,
                concept_name = text_col r activity\<rparr>) df"

subsection \<open>\<^verbatim>\<open>extract_footprints\<close>\<close>

text \<open>
  The discovery primitive \<^verbatim>\<open>pm4py.discover_footprints\<close> belongs to an external library; it
  is a parameter \<open>discover\<close> of the model, which either raises or gives the keys of the
  \<^verbatim>\<open>'dfg'\<close> dictionary of its result in their iteration order. \<open>discovery_input\<close> is the
  frame \<^verbatim>\<open>temp\<close> handed to it: the rows that pass \<^verbatim>\<open>data['End Date Actual'].notna()\<close>,
  renamed. An exception of the discovery leaves \<^verbatim>\<open>extract_footprints\<close> as it is.
\<close>

definition discovery_input :: "dataframe \<Rightarrow> string \<Rightarrow> string \<Rightarrow> string \<Rightarrow> event list" where
  "discovery_input data time case_id activity =
     (let temp = filter (\<lambda>r. date_col r ''End Date Actual'' \<noteq> None) data
      in rename_columns time case_id activity temp)"

definition extract_footprints ::
  "(event list \<Rightarrow> py_error + footprint list) \<Rightarrow> dataframe \<Rightarrow> string \<Rightarrow> string \<Rightarrow> string \<Rightarrow>
   py_error + footprint list" where
  "extract_footprints discover data time case_id activity =
     (let temp = discovery_input data time case_id activity
      in case discover temp of
           Inl e \<Rightarrow> Inl e
         | Inr extracted_footprints \<Rightarrow> Inr extracted_footprints)"

text \<open>
  Modelled from the spec: the discovery primitive itself (external, not part of the
  sources), as section 4.2 describes it: the events are grouped by case and ordered by
  timestamp within each case, and every pair of activities adjacent in that order is
  emitted once. Events without a timestamp are put last within their case. The library
  does not accept a frame without rows: \<open>discover_footprints\<close> raises ValueError on an
  empty log and returns the pairs otherwise. It serves as a concrete \<open>discover\<close> where
  one is needed.
\<close>

fun adjacent_pairs :: "'a list \<Rightarrow> ('a \<times> 'a) list" where
  "adjacent_pairs (x # y # rest) = (x, y) # adjacent_pairs (y # rest)"
| "adjacent_pairs rest = []"

definition by_timestamp :: "event list \<Rightarrow> event list" where
  "by_timestamp evs =
     sort_key (\<lambda>e. the (time_timestamp e)) (filter (\<lambda>e. time_timestamp e \<noteq> None) evs)
       @ filter (\<lambda>e. time_timestamp e = None) evs"

definition directly_follows :: "event list \<Rightarrow> footprint list" where
  "directly_follows evs =
     remdups (concat (map
       (\<lambda>c. adjacent_pairs (map concept_name
               (by_timestamp (filter (\<lambda>e. case_concept_name e = c) evs))))
       (remdups (map case_concept_name evs))))"

definition discover_footprints :: "event list \<Rightarrow> py_error + footprint list" where
  "discover_footprints evs = (if evs = [] then Inl ValueError else Inr (directly_follows evs))"

subsection \<open>Per-contract KPI data\<close>

text \<open>
  The result of \<^verbatim>\<open>groupby(['Contract']).agg(...)\<close> on the rows of one contract, with the
  columns renamed and the durations in seconds. All rows of the filtered frame carry the
  same contract, so the table has one row when the frame has rows and none otherwise.
\<close>

record kpi_row =
  Contract :: string
  OEE :: real
  Lead_Time :: real
  Malfunction_Duration :: real
  Rejected_Materials :: real

record contract_kpi_row = kpi_row +
  Counter :: int

definition col_mean :: "string \<Rightarrow> dataframe \<Rightarrow> real" where
  "col_mean c df = sum_list (map (\<lambda>r. num_col r c) df) / real (length df)"

definition contract_rows :: "dataframe \<Rightarrow> string \<Rightarrow> dataframe" where
  "contract_rows data contract = filter (\<lambda>r. text_col r ''Contract'' = contract) data"

definition contract_kpi_data :: "dataframe \<Rightarrow> string \<Rightarrow> contract_kpi_row list" where
  "contract_kpi_data data contract =
     (let pg_df_filtered = contract_rows data contract
      in if pg_df_filtered = [] then []
         else [\<lparr>Contract = contract,
                OEE = col_mean ''OEE'' pg_df_filtered,
                Lead_Time = col_mean ''Lead Time'' pg_df_filtered,
                Malfunction_Duration = col_mean ''Malfunction Duration'' pg_df_filtered,
                Rejected_Materials = col_mean ''Rejected Materials'' pg_df_filtered,
                Counter = int (length pg_df_filtered)\<rparr>])"

text \<open>
  The footprints of one contract: the discovery run on its completed operations, with
  whatever it raises.
\<close>

definition contract_footprints ::
  "(event list \<Rightarrow> py_error + footprint list) \<Rightarrow> dataframe \<Rightarrow> string \<Rightarrow>
   py_error + footprint list" where
  "contract_footprints discover data contract =
     (let pg_df_filtered = contract_rows data contract;
          pg_df_filtered = filter (\<lambda>r. date_col r ''End Date Actual'' \<noteq> None) pg_df_filtered;
          pg_df_filtered =
            rename_columns ''End Date Actual'' ''Contract'' ''Operation RelNr'' pg_df_filtered
      in discover pg_df_filtered)"

text \<open>\<^verbatim>\<open>.iloc[0]\<close> raises IndexError on a table without rows.\<close>

definition iloc0 :: "'a list \<Rightarrow> py_error + 'a" where
  "iloc0 table = (case table of [] \<Rightarrow> Inl IndexError | r # rest \<Rightarrow> Inr r)"

subsection \<open>\<^verbatim>\<open>analyze_footprints_by_kpi\<close>\<close>

record FootprintKpi =
  oee :: real
  lead_time :: real
  malfunction_duration :: real
  rejection_count :: real
  count :: int

type_synonym accumulators = "(footprint \<rightharpoonup> FootprintKpi) \<times> (footprint \<rightharpoonup> string list)"

text \<open>
  The inner loop over \<^verbatim>\<open>extracted_footprints\<close> for one contract. Each of the two branches
  reads \<^verbatim>\<open>kpi_data[...].iloc[0]\<close> before it changes a dictionary, so an empty table raises
  at the first footprint the contract shares with the baseline.
\<close>

fun attribute_footprints ::
  "contract_kpi_row list \<Rightarrow> footprint list \<Rightarrow> string \<Rightarrow> footprint list \<Rightarrow> accumulators \<Rightarrow>
   py_error + accumulators" where
  "attribute_footprints kpi_data dfg contract [] acc = Inr acc"
| "attribute_footprints kpi_data dfg contract (fp # rest) (footprint_kpis, footprint_contracts) =
     (if fp \<in> set dfg then
        (case iloc0 kpi_data of
           Inl e \<Rightarrow> Inl e
         | Inr k \<Rightarrow>
             (let footprint_kpis' =
                    (case footprint_kpis fp of
                       None \<Rightarrow>
                         footprint_kpis(fp \<mapsto>
                           \<lparr>oee = OEE k, lead_time = Lead_Time k,
                            malfunction_duration = Malfunction_Duration k,
                            rejection_count = Rejected_Materials k, count = 1\<rparr>)
                     | Some a \<Rightarrow>
                         footprint_kpis(fp \<mapsto>
                           a\<lparr>oee := oee a + OEE k,
                             lead_time := lead_time a + Lead_Time k,
                             malfunction_duration := malfunction_duration a + Malfunction_Duration k,
                             rejection_count := rejection_count a + Rejected_Materials k,
                             count := count a + 1\<rparr>));
                  footprint_contracts' =
                    (case footprint_contracts fp of
                       None \<Rightarrow> footprint_contracts(fp \<mapsto> [contract])
                     | Some cs \<Rightarrow> footprint_contracts(fp \<mapsto> cs @ [contract]))
              in attribute_footprints kpi_data dfg contract rest
                   (footprint_kpis', footprint_contracts')))
      else attribute_footprints kpi_data dfg contract rest (footprint_kpis, footprint_contracts))"

text \<open>
  The outer loop over \<^verbatim>\<open>contracts\<close>: the KPI table of the contract is computed, then its
  footprints are discovered, then the inner loop runs.
\<close>

fun process_contracts ::
  "(event list \<Rightarrow> py_error + footprint list) \<Rightarrow> dataframe \<Rightarrow> footprint list \<Rightarrow> string list \<Rightarrow>
   accumulators \<Rightarrow> py_error + accumulators" where
  "process_contracts discover data extracted_footprints [] acc = Inr acc"
| "process_contracts discover data extracted_footprints (contract # rest) acc =
     (let kpi_data = contract_kpi_data data contract
      in case contract_footprints discover data contract of
           Inl e \<Rightarrow> Inl e
         | Inr footprints_dfg \<Rightarrow>
             (case attribute_footprints kpi_data footprints_dfg contract
                     extracted_footprints acc of
                Inl e \<Rightarrow> Inl e
              | Inr acc' \<Rightarrow> process_contracts discover data extracted_footprints rest acc'))"

text \<open>
  The two result dictionaries of parallel lists. \<open>kv_fp\<close> is the list under \<^verbatim>\<open>'fp'\<close>,
  \<open>kv_OEE\<close> the one under \<^verbatim>\<open>'OEE'\<close> of \<^verbatim>\<open>kpi_values\<close>, and so on; \<open>diff_OEE\<close> is the list
  under \<^verbatim>\<open>'OEE'\<close> of \<^verbatim>\<open>diff_to_soll\<close>.
\<close>

record kpi_values =
  kv_fp :: "footprint list"
  kv_label :: "string list"
  kv_OEE :: "real list"
  kv_Lead_Time :: "real list"
  kv_Malfunction_Duration :: "real list"
  kv_Rejected_Materials :: "real list"

record diff_to_soll =
  diff_Footprint :: "string list"
  diff_OEE :: "real list"
  diff_Lead_Time :: "real list"
  diff_Malfunction_Duration :: "real list"
  diff_Rejected_Materials :: "real list"

definition fp_label :: "footprint \<Rightarrow> string" where
  "fp_label fp = fst fp @ '' -> '' @ snd fp"

text \<open>
  The finalizing loop. A footprint without an accumulator is passed over; for the others
  the means are \<open>sum / count\<close> and the differences are taken to the first row of
  \<^verbatim>\<open>kpi_data_mnummer\<close>, whose \<^verbatim>\<open>.iloc[0]\<close> raises when that table is empty. Every
  accumulator is created with count 1 and only incremented (lemma \<open>count_positive\<close>
  below), so no division is by zero.
\<close>

fun finalize_footprints ::
  "(footprint \<rightharpoonup> FootprintKpi) \<Rightarrow> kpi_row list \<Rightarrow> footprint list \<Rightarrow>
   kpi_values \<times> diff_to_soll \<Rightarrow> py_error + (kpi_values \<times> diff_to_soll)" where
  "finalize_footprints footprint_kpis kpi_data_mnummer [] out = Inr out"
| "finalize_footprints footprint_kpis kpi_data_mnummer (fp # rest) (kv, diff) =
     (case footprint_kpis fp of
        None \<Rightarrow> finalize_footprints footprint_kpis kpi_data_mnummer rest (kv, diff)
      | Some a \<Rightarrow>
          (let oee' = oee a / of_int (count a);
               lead_time' = lead_time a / of_int (count a);
               malfunction_duration' = malfunction_duration a / of_int (count a);
               rejection_count' = rejection_count a / of_int (count a)
           in case iloc0 kpi_data_mnummer of
                Inl e \<Rightarrow> Inl e
              | Inr soll \<Rightarrow>
                  (let oee_diff_to_soll = oee' - OEE soll;
                       lead_time_diff_to_soll = lead_time' - Lead_Time soll;
                       malfunction_duration_diff_to_soll =
                         malfunction_duration' - Malfunction_Duration soll;
                       rejection_count_diff_to_soll = rejection_count' - Rejected_Materials soll
                   in finalize_footprints footprint_kpis kpi_data_mnummer rest
                        (\<lparr>kv_fp = kv_fp kv @ [fp],
                          kv_label = kv_label kv @ [fp_label fp],
                          kv_OEE = kv_OEE kv @ [oee'],
                          kv_Lead_Time = kv_Lead_Time kv @ [lead_time'],
                          kv_Malfunction_Duration =
                            kv_Malfunction_Duration kv @ [malfunction_duration'],
                          kv_Rejected_Materials = kv_Rejected_Materials kv @ [rejection_count']\<rparr>,
                         \<lparr>diff_Footprint = diff_Footprint diff @ [fp_label fp],
                          diff_OEE = diff_OEE diff @ [oee_diff_to_soll],
                          diff_Lead_Time = diff_Lead_Time diff @ [lead_time_diff_to_soll],
                          diff_Malfunction_Duration =
                            diff_Malfunction_Duration diff @ [malfunction_duration_diff_to_soll],
                          diff_Rejected_Materials =
                            diff_Rejected_Materials diff @ [rejection_count_diff_to_soll]\<rparr>))))"

definition no_kpi_values :: kpi_values where
  "no_kpi_values =
     \<lparr>kv_fp = [], kv_label = [], kv_OEE = [], kv_Lead_Time = [],
      kv_Malfunction_Duration = [], kv_Rejected_Materials = []\<rparr>"

definition no_diff_to_soll :: diff_to_soll where
  "no_diff_to_soll =
     \<lparr>diff_Footprint = [], diff_OEE = [], diff_Lead_Time = [],
      diff_Malfunction_Duration = [], diff_Rejected_Materials = []\<rparr>"

text \<open>
  The body of \<^verbatim>\<open>analyze_footprints_by_kpi\<close> after the baseline footprints are extracted:
  both dictionaries start empty, the contracts are processed, the footprints finalized.
\<close>

definition accumulate ::
  "(event list \<Rightarrow> py_error + footprint list) \<Rightarrow> dataframe \<Rightarrow> string list \<Rightarrow> kpi_row list \<Rightarrow>
   footprint list \<Rightarrow> py_error + (kpi_values \<times> (footprint \<rightharpoonup> string list) \<times> diff_to_soll)" where
  "accumulate discover data contracts kpi_data_mnummer extracted_footprints =
     (case process_contracts discover data extracted_footprints contracts (Map.empty, Map.empty) of
        Inl e \<Rightarrow> Inl e
      | Inr (footprint_kpis, footprint_contracts) \<Rightarrow>
          (case finalize_footprints footprint_kpis kpi_data_mnummer extracted_footprints
                  (no_kpi_values, no_diff_to_soll) of
             Inl e \<Rightarrow> Inl e
           | Inr (kpi_values, diff_to_soll) \<Rightarrow> Inr (kpi_values, footprint_contracts, diff_to_soll)))"

definition analyze_footprints_by_kpi ::
  "(event list \<Rightarrow> py_error + footprint list) \<Rightarrow> dataframe \<Rightarrow> string list \<Rightarrow> kpi_row list \<Rightarrow>
   py_error + (kpi_values \<times> (footprint \<rightharpoonup> string list) \<times> diff_to_soll)" where
  "analyze_footprints_by_kpi discover data contracts kpi_data_mnummer =
     (let time = ''End Date Actual'';
          activity = ''Operation RelNr'';
          case_id = ''Contract''
      in case extract_footprints discover data time case_id activity of
           Inl e \<Rightarrow> Inl e
         | Inr extracted_footprints \<Rightarrow>
             accumulate discover data contracts kpi_data_mnummer extracted_footprints)"

subsection \<open>What the statements speak of\<close>

text \<open>
  The footprints a discovery gave, none when it raised; the contracts that contribute to a
  footprint, in list order; and the running sums their KPI rows add up to: an accumulator
  exists only after a first contribution.
\<close>

definition footprints_of :: "py_error + footprint list \<Rightarrow> footprint list" where
  "footprints_of r = (case r of Inl e \<Rightarrow> [] | Inr fps \<Rightarrow> fps)"

definition contributing ::
  "(event list \<Rightarrow> py_error + footprint list) \<Rightarrow> dataframe \<Rightarrow> string list \<Rightarrow> footprint \<Rightarrow>
   string list" where
  "contributing discover data contracts fp =
     filter (\<lambda>c. fp \<in> set (footprints_of (contract_footprints discover data c))) contracts"

definition contract_mean :: "string \<Rightarrow> dataframe \<Rightarrow> string \<Rightarrow> real" where
  "contract_mean kpi data contract = col_mean kpi (contract_rows data contract)"

definition summarize :: "contract_kpi_row list \<Rightarrow> FootprintKpi option" where
  "summarize ks =
     (if ks = [] then None
      else Some \<lparr>oee = sum_list (map OEE ks),
                 lead_time = sum_list (map Lead_Time ks),
                 malfunction_duration = sum_list (map Malfunction_Duration ks),
                 rejection_count = sum_list (map Rejected_Materials ks),
                 count = int (length ks)\<rparr>)"

text \<open>
  The KPI row a contract contributes (the single row of its table, when it has one), the
  sum of one KPI over the contributing contracts, and the shape of the two dictionaries
  after a run: a footprint has an entry only once something was recorded for it.
  \<open>history\<close> lists, for one footprint, the contract of every pass through the body of the
  inner loop, in order; \<open>live\<close> are the footprints that have an accumulator,
  \<open>mean_of\<close> is \<open>sum / count\<close> of one field, and \<open>finalized\<close> is the closed form of
  what the finalizing loop appends.
\<close>

definition contract_kpis :: "dataframe \<Rightarrow> string \<Rightarrow> contract_kpi_row" where
  "contract_kpis data contract =
     \<lparr>Contract = contract,
      OEE = contract_mean ''OEE'' data contract,
      Lead_Time = contract_mean ''Lead Time'' data contract,
      Malfunction_Duration = contract_mean ''Malfunction Duration'' data contract,
      Rejected_Materials = contract_mean ''Rejected Materials'' data contract,
      Counter = int (length (contract_rows data contract))\<rparr>"

definition kpi_sum ::
  "string \<Rightarrow> (event list \<Rightarrow> py_error + footprint list) \<Rightarrow> dataframe \<Rightarrow> string list \<Rightarrow> footprint \<Rightarrow> real" where
  "kpi_sum kpi discover data contracts fp =
     sum_list (map (contract_mean kpi data) (contributing discover data contracts fp))"

definition listing :: "string list \<Rightarrow> string list option" where
  "listing cs = (if cs = [] then None else Some cs)"

definition history ::
  "(event list \<Rightarrow> py_error + footprint list) \<Rightarrow> dataframe \<Rightarrow> footprint list \<Rightarrow> string list \<Rightarrow>
   footprint \<Rightarrow> string list" where
  "history discover data extracted contracts fp =
     concat (map (\<lambda>c. if fp \<in> set (footprints_of (contract_footprints discover data c))
                        then replicate (count_list extracted fp) c else []) contracts)"

definition live :: "(footprint \<rightharpoonup> FootprintKpi) \<Rightarrow> footprint list \<Rightarrow> footprint list" where
  "live fk fps = filter (\<lambda>fp. fk fp \<noteq> None) fps"

definition mean_of :: "(FootprintKpi \<Rightarrow> real) \<Rightarrow> (footprint \<rightharpoonup> FootprintKpi) \<Rightarrow> footprint \<Rightarrow> real" where
  "mean_of field fk fp = field (the (fk fp)) / of_int (count (the (fk fp)))"

definition finalized ::
  "(footprint \<rightharpoonup> FootprintKpi) \<Rightarrow> kpi_row \<Rightarrow> footprint list \<Rightarrow> kpi_values \<Rightarrow> diff_to_soll \<Rightarrow>
   kpi_values \<times> diff_to_soll" where
  "finalized fk soll fps kv d =
     (\<lparr>kv_fp = kv_fp kv @ live fk fps,
       kv_label = kv_label kv @ map fp_label (live fk fps),
       kv_OEE = kv_OEE kv @ map (mean_of oee fk) (live fk fps),
       kv_Lead_Time = kv_Lead_Time kv @ map (mean_of lead_time fk) (live fk fps),
       kv_Malfunction_Duration =
         kv_Malfunction_Duration kv @ map (mean_of malfunction_duration fk) (live fk fps),
       kv_Rejected_Materials =
         kv_Rejected_Materials kv @ map (mean_of rejection_count fk) (live fk fps)\<rparr>,
      \<lparr>diff_Footprint = diff_Footprint d @ map fp_label (live fk fps),
       diff_OEE = diff_OEE d @ map (\<lambda>fp. mean_of oee fk fp - OEE soll) (live fk fps),
       diff_Lead_Time =
         diff_Lead_Time d @ map (\<lambda>fp. mean_of lead_time fk fp - Lead_Time soll) (live fk fps),
       diff_Malfunction_Duration =
         diff_Malfunction_Duration d
           @ map (\<lambda>fp. mean_of malfunction_duration fk fp - Malfunction_Duration soll)
               (live fk fps),
       diff_Rejected_Materials =
         diff_Rejected_Materials d
           @ map (\<lambda>fp. mean_of rejection_count fk fp - Rejected_Materials soll) (live fk fps)\<rparr>)"

subsection \<open>Sample data\<close>

text \<open>
  A row with the columns the analysis reads: contract, operation, start and end date, and
  the four KPI values. \<open>sample_data\<close> has three contracts: X and Y run operation A then
  B, Z runs B then C. \<open>sample_soll\<close> is a baseline table of one row; the two
  \<open>sample_\<close> results are what the analysis of X and Y returns.
\<close>

definition production_row ::
  "string \<Rightarrow> string \<Rightarrow> int option \<Rightarrow> int option \<Rightarrow> real \<Rightarrow> real \<Rightarrow> real \<Rightarrow> real \<Rightarrow> row" where
  "production_row contract operation start_date end_date oee_v lead_v malf_v rej_v =
     \<lparr>text_col = (\<lambda>c. if c = ''Contract'' then contract
                       else if c = ''Operation RelNr'' then operation else ''''),
      date_col = (\<lambda>c. if c = ''End Date Actual'' then end_date
                       else if c = ''Start Date Actual'' then start_date else None),
      num_col = (\<lambda>c. if c = ''OEE'' then oee_v
                      else if c = ''Lead Time'' then lead_v
                      else if c = ''Malfunction Duration'' then malf_v
                      else if c = ''Rejected Materials'' then rej_v else 0)\<rparr>"

definition sample_data :: dataframe where
  "sample_data =
     [production_row ''X'' ''A'' (Some 1) (Some 1) 0.9 10 0 1,
      production_row ''X'' ''B'' (Some 2) (Some 2) 0.9 10 0 1,
      production_row ''Y'' ''A'' (Some 3) (Some 3) 0.7 20 4 3,
      production_row ''Y'' ''B'' (Some 4) (Some 4) 0.7 20 4 3,
      production_row ''Z'' ''B'' (Some 5) (Some 5) 0.5 30 8 5,
      production_row ''Z'' ''C'' (Some 6) (Some 6) 0.5 30 8 5]"

definition sample_soll :: "kpi_row list" where
  "sample_soll = [\<lparr>Contract = ''mean'', OEE = 0.75, Lead_Time = 15,
                   Malfunction_Duration = 2, Rejected_Materials = 2\<rparr>]"

definition sample_kpi_values :: kpi_values where
  "sample_kpi_values =
     \<lparr>kv_fp = [(''A'', ''B'')], kv_label = [''A -> B''], kv_OEE = [0.8],
      kv_Lead_Time = [15], kv_Malfunction_Duration = [2], kv_Rejected_Materials = [2]\<rparr>"

definition sample_diff_to_soll :: diff_to_soll where
  "sample_diff_to_soll =
     \<lparr>diff_Footprint = [''A -> B''], diff_OEE = [0.05], diff_Lead_Time = [0],
      diff_Malfunction_Duration = [0], diff_Rejected_Materials = [0]\<rparr>"

text \<open>
  A second discovery, used only to exercise the guard on the baseline: it ignores the case
  column, so a contract on its own can show a pair that the whole population does not. A
  third, \<open>quiet_follows\<close>, accepts a log without events and finds no pair in it. In
  \<open>interleaved_data\<close> an operation of contract Y falls between the two of contract X.
  In \<open>late_start_data\<close> the second operation has an end date and no start date.
\<close>

definition flat_follows :: "event list \<Rightarrow> py_error + footprint list" where
  "flat_follows evs =
     (if evs = [] then Inl ValueError
      else Inr (remdups (adjacent_pairs (map concept_name (by_timestamp evs)))))"

definition quiet_follows :: "event list \<Rightarrow> py_error + footprint list" where
  "quiet_follows evs = Inr (directly_follows evs)"

definition interleaved_data :: dataframe where
  "interleaved_data =
     [production_row ''X'' ''A'' (Some 1) (Some 1) 0.9 10 0 1,
      production_row ''Y'' ''C'' (Some 2) (Some 2) 0.7 20 4 3,
      production_row ''X'' ''B'' (Some 3) (Some 3) 0.9 10 0 1]"

definition late_start_data :: dataframe where
  "late_start_data =
     [production_row ''X'' ''A'' (Some 1) (Some 2) 0.9 10 0 1,
      production_row ''X'' ''B'' None (Some 3) 0.9 10 0 1]"

subsection \<open>Properties of the classifier\<close>

lemma determine_color_neutral:
  "\<not> upper_bound < v \<Longrightarrow> \<not> v < lower_bound \<Longrightarrow>
   determine_color v upper_bound lower_bound sd reverse = ''blue''"
  by (simp add: determine_color_def)

text \<open>
  Claim C3. With \<open>upper = mean + spread/2\<close>, \<open>lower = mean - spread\<close> when reversed and
  \<open>upper = mean + spread\<close>, \<open>lower = mean - spread/2\<close> otherwise, every value strictly
  between \<open>lower\<close> and \<open>upper\<close> is classified as the neutral sentinel \<^verbatim>\<open>'blue'\<close>, for every
  mean, spread and direction flag.
\<close>

theorem neutral_band:
  assumes "lower_of mean sd reversed < v" and "v < upper_of mean sd reversed"
  shows "determine_color v (upper_of mean sd reversed) (lower_of mean sd reversed) sd reversed
           = ''blue''"
  using assms by (intro determine_color_neutral) simp_all

text \<open>At mean 10 and spread 2, reversed, the band is from 8 to 11 and 10 lies inside it.\<close>

theorem neutral_band_witness:
  "lower_of 10 2 True < 10 \<and> 10 < upper_of 10 2 True \<and>
   determine_color 10 (upper_of 10 2 True) (lower_of 10 2 True) 2 True = ''blue'' \<and>
   upper_of 10 2 True = 11 \<and> lower_of 10 2 True = 8"
  using neutral_band [of 10 2 True 10] by (simp add: upper_of_def lower_of_def)

lemma high_side:
  "upper_bound < v \<Longrightarrow>
   determine_color v upper_bound lower_bound sd reverse =
     (if reverse then green_pallete else red_pallete) ! (severity_step sd (v - upper_bound) - 1)"
  by (auto simp: determine_color_def severity_step_def algebra_simps)

lemma low_side:
  "\<not> upper_bound < v \<Longrightarrow> v < lower_bound \<Longrightarrow>
   determine_color v upper_bound lower_bound sd reverse =
     (if reverse then red_pallete else green_pallete) ! (severity_step sd (lower_bound - v) - 1)"
  by (auto simp: determine_color_def severity_step_def algebra_simps)

lemma severity_step_range: "1 \<le> severity_step sd d \<and> severity_step sd d \<le> 4"
  by (simp add: severity_step_def)

lemma severity_pallete:
  assumes "1 \<le> k" and "k \<le> 4"
  shows "severity (red_pallete ! (k - 1)) = k" and "severity (green_pallete ! (k - 1)) = k"
proof -
  from assms have "k = 1 \<or> k = 2 \<or> k = 3 \<or> k = 4" by arith
  then show "severity (red_pallete ! (k - 1)) = k" and "severity (green_pallete ! (k - 1)) = k"
    by (auto simp: severity_def red_pallete_def green_pallete_def)
qed

subsubsection \<open>Rounding\<close>

lemma round_half_even_int [simp]: "round_half_even (of_int n) = n"
  by (simp add: round_half_even_def)

lemma round_double_binade:
  assumes "power_int 2 k \<le> \<bar>x\<bar>" and "\<bar>x\<bar> < power_int 2 (k + 1)"
  shows "round_double x
           = of_int (round_half_even (x / power_int 2 (k - 52))) * power_int 2 (k - 52)"
proof -
  have pos: "0 < \<bar>x\<bar>"
    using assms(1) by (smt (verit) zero_less_power_int)
  then have nz: "x \<noteq> 0" by auto
  have lo: "(2::real) powr real_of_int k = power_int 2 k"
    by (rule powr_real_of_int') simp_all
  have hi: "(2::real) powr real_of_int (k + 1) = power_int 2 (k + 1)"
    by (rule powr_real_of_int') simp_all
  have "(2::real) powr real_of_int k \<le> \<bar>x\<bar> \<and> \<bar>x\<bar> < (2::real) powr real_of_int (k + 1)"
    unfolding lo hi using assms by simp
  then have "\<lfloor>log 2 \<bar>x\<bar>\<rfloor> = k"
    using floor_log_eq_powr_iff [of "\<bar>x\<bar>" 2 k] pos by simp
  with nz show ?thesis
    by (simp add: round_double_def Let_def)
qed

lemma round_double_0 [simp]: "round_double 0 = 0"
  by (simp add: round_double_def)

lemma round_double_of_int:
  assumes "\<bar>n\<bar> < 2 ^ 53"
  shows "round_double (of_int n) = of_int n"
proof (cases "n = 0")
  case True
  then show ?thesis by simp
next
  case False
  let ?x = "real_of_int n"
  let ?k = "\<lfloor>log 2 \<bar>?x\<bar>\<rfloor>"
  from False have one: "1 \<le> \<bar>?x\<bar>"
    by simp
  from assms have top: "\<bar>?x\<bar> < 2 ^ 53"
    by simp
  have "0 \<le> log 2 \<bar>?x\<bar>"
    using one by simp
  then have k0: "0 \<le> ?k" by simp
  have p53: "(2::real) powr 53 = 2 ^ 53"
    using powr_realpow [of 2 53] by simp
  have "log 2 \<bar>?x\<bar> < 53"
    using log_less_iff [of 2 "\<bar>?x\<bar>" 53] one top p53 by simp
  then have k52: "?k \<le> 52"
    by linarith
  define j where "j = nat (52 - ?k)"
  have e: "?k - 52 = - int j"
    using k52 by (simp add: j_def)
  have "?x / power_int 2 (?k - 52) = ?x * 2 ^ j"
    unfolding e by (simp add: power_int_minus field_simps)
  also have "\<dots> = of_int (n * 2 ^ j)" by simp
  finally have q: "?x / power_int 2 (?k - 52) = of_int (n * 2 ^ j)" .
  have "round_double ?x = of_int (n * 2 ^ j) * power_int 2 (?k - 52)"
    using False by (simp add: round_double_def Let_def q del: of_int_mult of_int_power)
  also have "\<dots> = ?x"
    unfolding e by (simp add: power_int_minus field_simps)
  finally show ?thesis .
qed

lemma round_double_numeral [simp]:
  "(numeral w :: int) < 2 ^ 53 \<Longrightarrow> round_double (numeral w) = numeral w"
  using round_double_of_int [of "numeral w"] by simp

lemma round_double_neg_numeral [simp]:
  "(numeral w :: int) < 2 ^ 53 \<Longrightarrow> round_double (- numeral w) = - numeral w"
  using round_double_of_int [of "- numeral w"] by simp

lemma round_double_1 [simp]: "round_double 1 = 1"
  using round_double_of_int [of 1] by simp

lemma round_double_neg_1 [simp]: "round_double (- 1) = - 1"
  using round_double_of_int [of "- 1"] by simp

lemma tenth_doubled: "round_double (tenth + tenth) = fifth"
  unfolding tenth_def fifth_def
  by (subst round_double_binade [where k = "-3"])
     (simp_all add: power_int_minus round_half_even_def field_simps)

lemma fifth_and_tenth: "round_double (fifth + tenth) = three_tenths_up"
  unfolding tenth_def fifth_def three_tenths_up_def
  by (subst round_double_binade [where k = "-2"])
     (simp_all add: power_int_minus round_half_even_def field_simps)

lemma tenth_double: "round_double tenth = tenth"
  unfolding tenth_def
  by (subst round_double_binade [where k = "-4"])
     (simp_all add: power_int_minus round_half_even_def field_simps)

lemma three_tenths_up_double: "round_double three_tenths_up = three_tenths_up"
  unfolding three_tenths_up_def
  by (subst round_double_binade [where k = "-2"])
     (simp_all add: power_int_minus round_half_even_def field_simps)

lemma tenth_order:
  "fifth < three_tenths_up" "tenth < three_tenths_up - fifth" "three_tenths_up - fifth \<le> 2 * tenth"
  by (simp_all add: tenth_def fifth_def three_tenths_up_def)

lemma ulp_double: "round_double one_and_ulp = one_and_ulp"
  unfolding one_and_ulp_def
  by (subst round_double_binade [where k = 0])
     (simp_all add: power_int_minus round_half_even_def field_simps)

lemma ulp_neg: "round_double (- one_and_ulp) = - one_and_ulp"
  unfolding one_and_ulp_def
  by (subst round_double_binade [where k = 0])
     (simp_all add: power_int_minus round_half_even_def field_simps)

lemma ulp_tie: "round_double (2 + one_and_ulp) = 3"
  unfolding one_and_ulp_def
  by (subst round_double_binade [where k = 1])
     (simp_all add: power_int_minus round_half_even_def field_simps)

lemma round_double_half: "round_double (1 / 2) = 1 / 2"
  by (subst round_double_binade [where k = "-1"])
     (simp_all add: power_int_minus round_half_even_def field_simps)

lemma round_double_three_halves: "round_double (3 / 2) = 3 / 2"
  by (subst round_double_binade [where k = 0])
     (simp_all add: power_int_minus round_half_even_def field_simps)

lemma ulp_order: "1 < one_and_ulp" "one_and_ulp \<le> 2"
  by (simp_all add: one_and_ulp_def)

subsubsection \<open>The steps of the classifier\<close>

lemma determine_color_fl_exact:
  "determine_color_fl (\<lambda>x. x) v upper_bound lower_bound sd reverse
     = determine_color v upper_bound lower_bound sd reverse"
  by (simp add: determine_color_fl_def determine_color_def)

lemma determine_color_fl_neutral:
  "\<not> upper_bound < v \<Longrightarrow> \<not> v < lower_bound \<Longrightarrow>
   determine_color_fl fl v upper_bound lower_bound sd reverse = ''blue''"
  by (simp add: determine_color_fl_def)

lemma high_side_fl:
  "upper_bound < v \<Longrightarrow>
   determine_color_fl fl v upper_bound lower_bound sd reverse =
     (if reverse then green_pallete else red_pallete)
       ! (steps_above v (fl (upper_bound + sd)) (fl (upper_bound + fl (2 * sd)))
            (fl (upper_bound + fl (3 * sd))) - 1)"
  by (auto simp: determine_color_fl_def steps_above_def)

lemma low_side_fl:
  "\<not> upper_bound < v \<Longrightarrow> v < lower_bound \<Longrightarrow>
   determine_color_fl fl v upper_bound lower_bound sd reverse =
     (if reverse then red_pallete else green_pallete)
       ! (steps_below v (fl (lower_bound - sd)) (fl (lower_bound - fl (2 * sd)))
            (fl (lower_bound - fl (3 * sd))) - 1)"
  by (auto simp: determine_color_fl_def steps_below_def)

lemma steps_range:
  "1 \<le> steps_above v t1 t2 t3 \<and> steps_above v t1 t2 t3 \<le> 4"
  "1 \<le> steps_below v t1 t2 t3 \<and> steps_below v t1 t2 t3 \<le> 4"
  by (simp_all add: steps_above_def steps_below_def)

lemma steps_exact:
  "steps_above v (ub + sd) (ub + 2 * sd) (ub + 3 * sd) = severity_step sd (v - ub)"
  "steps_below v (lb - sd) (lb - 2 * sd) (lb - 3 * sd) = severity_step sd (lb - v)"
  by (auto simp: steps_above_def steps_below_def severity_step_def)

lemma severity_fl_le: "severity (determine_color_fl fl v upper_bound lower_bound sd reverse) \<le> 4"
  by (simp add: severity_def)

text \<open>
  Claim C4 says that a value beyond \<open>upper\<close> by more than one spread and at most two gets
  severity 2. On doubles, with mean and spread \<^verbatim>\<open>0.1\<close>, \<open>upper\<close> is \<^verbatim>\<open>0.2\<close> and the value
  \<^verbatim>\<open>0.30000000000000004\<close> lies more than one spread beyond it; but \<^verbatim>\<open>0.2 + 0.1\<close> is
  rounded up to that very value, so the first test \<^verbatim>\<open>val <= upper_bound + sd\<close> holds and
  the colour is the first red, severity 1.
\<close>

theorem rounded_threshold_counterexample:
  "round_double tenth = tenth \<and> round_double three_tenths_up = three_tenths_up
   \<and> upper_fl round_double tenth tenth False = fifth
   \<and> tenth < three_tenths_up - upper_fl round_double tenth tenth False
   \<and> severity_step tenth (three_tenths_up - upper_fl round_double tenth tenth False) = 2
   \<and> determine_color_fl round_double three_tenths_up
        (upper_fl round_double tenth tenth False) (lower_fl round_double tenth tenth False)
        tenth False = ''#F15A59''
   \<and> severity (determine_color_fl round_double three_tenths_up
        (upper_fl round_double tenth tenth False) (lower_fl round_double tenth tenth False)
        tenth False) = 1"
proof -
  have ub: "upper_fl round_double tenth tenth False = fifth"
    using tenth_doubled by (simp add: upper_fl_def)
  have far: "tenth < three_tenths_up - upper_fl round_double tenth tenth False"
    unfolding ub by (rule tenth_order)
  have step: "severity_step tenth (three_tenths_up - upper_fl round_double tenth tenth False) = 2"
    unfolding ub using tenth_order by (simp add: severity_step_def)
  have col: "determine_color_fl round_double three_tenths_up
        (upper_fl round_double tenth tenth False) (lower_fl round_double tenth tenth False)
        tenth False = ''#F15A59''"
    unfolding ub by (simp add: determine_color_fl_def tenth_order fifth_and_tenth red_pallete_def)
  have sev: "severity ''#F15A59'' = 1"
    by (simp add: severity_def red_pallete_def)
  from tenth_double three_tenths_up_double ub far step col sev show ?thesis
    by simp
qed

text \<open>
  Claim C4, as the code has it. Outside the neutral band the severity is the step of the
  value against the three thresholds the code computes, \<^verbatim>\<open>upper_bound + sd\<close>,
  \<^verbatim>\<open>upper_bound + 2 * sd\<close> and \<^verbatim>\<open>upper_bound + 3 * sd\<close> above and
  \<^verbatim>\<open>lower_bound - sd\<close>, \<^verbatim>\<open>lower_bound - 2 * sd\<close> and \<^verbatim>\<open>lower_bound - 3 * sd\<close> below, each
  rounded as the arithmetic rounds it, whatever the rounding: 1 up to the first, 2 up to
  the second, 3 up to the third, 4 beyond. No severity is above 4 and the stepping is the
  same on both sides; the high side is coloured from the green palette when reversed and
  from the red one otherwise, the low side the other way round. Where the thresholds are
  computed without rounding error, the severity is the number of spreads the value lies
  beyond the bound.
\<close>

theorem computed_severity_steps:
  "(upper_bound < v \<longrightarrow>
      determine_color_fl fl v upper_bound lower_bound sd reverse
        = (if reverse then green_pallete else red_pallete)
            ! (steps_above v (fl (upper_bound + sd)) (fl (upper_bound + fl (2 * sd)))
                 (fl (upper_bound + fl (3 * sd))) - 1)
      \<and> severity (determine_color_fl fl v upper_bound lower_bound sd reverse)
        = steps_above v (fl (upper_bound + sd)) (fl (upper_bound + fl (2 * sd)))
            (fl (upper_bound + fl (3 * sd))))
   \<and> (\<not> upper_bound < v \<and> v < lower_bound \<longrightarrow>
      determine_color_fl fl v upper_bound lower_bound sd reverse
        = (if reverse then red_pallete else green_pallete)
            ! (steps_below v (fl (lower_bound - sd)) (fl (lower_bound - fl (2 * sd)))
                 (fl (lower_bound - fl (3 * sd))) - 1)
      \<and> severity (determine_color_fl fl v upper_bound lower_bound sd reverse)
        = steps_below v (fl (lower_bound - sd)) (fl (lower_bound - fl (2 * sd)))
            (fl (lower_bound - fl (3 * sd))))
   \<and> severity (determine_color_fl fl v upper_bound lower_bound sd reverse) \<le> 4
   \<and> ((\<forall>x \<in> set [2 * sd, 3 * sd, upper_bound + sd, upper_bound + 2 * sd, upper_bound + 3 * sd,
                     lower_bound - sd, lower_bound - 2 * sd, lower_bound - 3 * sd]. fl x = x) \<longrightarrow>
        (upper_bound < v \<longrightarrow>
           severity (determine_color_fl fl v upper_bound lower_bound sd reverse)
             = severity_step sd (v - upper_bound))
      \<and> (\<not> upper_bound < v \<and> v < lower_bound \<longrightarrow>
           severity (determine_color_fl fl v upper_bound lower_bound sd reverse)
             = severity_step sd (lower_bound - v)))"
proof -
  let ?c = "determine_color_fl fl v upper_bound lower_bound sd reverse"
  let ?up = "steps_above v (fl (upper_bound + sd)) (fl (upper_bound + fl (2 * sd)))
               (fl (upper_bound + fl (3 * sd)))"
  let ?down = "steps_below v (fl (lower_bound - sd)) (fl (lower_bound - fl (2 * sd)))
                 (fl (lower_bound - fl (3 * sd)))"
  have hi: "?c = (if reverse then green_pallete else red_pallete) ! (?up - 1)"
       "severity ?c = ?up" if "upper_bound < v"
  proof -
    show eq: "?c = (if reverse then green_pallete else red_pallete) ! (?up - 1)"
      using that by (rule high_side_fl)
    show "severity ?c = ?up"
      unfolding eq using steps_range(1) [of v "fl (upper_bound + sd)"
          "fl (upper_bound + fl (2 * sd))" "fl (upper_bound + fl (3 * sd))"]
        severity_pallete [of ?up]
      by (cases reverse) simp_all
  qed
  have lo: "?c = (if reverse then red_pallete else green_pallete) ! (?down - 1)"
       "severity ?c = ?down" if "\<not> upper_bound < v" "v < lower_bound"
  proof -
    show eq: "?c = (if reverse then red_pallete else green_pallete) ! (?down - 1)"
      using that by (rule low_side_fl)
    show "severity ?c = ?down"
      unfolding eq using steps_range(2) [of v "fl (lower_bound - sd)"
          "fl (lower_bound - fl (2 * sd))" "fl (lower_bound - fl (3 * sd))"]
        severity_pallete [of ?down]
      by (cases reverse) simp_all
  qed
  have le4: "severity ?c \<le> 4"
    by (rule severity_fl_le)
  have exact: "(upper_bound < v \<longrightarrow> severity ?c = severity_step sd (v - upper_bound))
      \<and> (\<not> upper_bound < v \<and> v < lower_bound \<longrightarrow> severity ?c = severity_step sd (lower_bound - v))"
    if ex: "\<forall>x \<in> set [2 * sd, 3 * sd, upper_bound + sd, upper_bound + 2 * sd, upper_bound + 3 * sd,
                     lower_bound - sd, lower_bound - 2 * sd, lower_bound - 3 * sd]. fl x = x"
  proof -
    from ex have up: "?up = steps_above v (upper_bound + sd) (upper_bound + 2 * sd) (upper_bound + 3 * sd)"
      and down: "?down = steps_below v (lower_bound - sd) (lower_bound - 2 * sd) (lower_bound - 3 * sd)"
      by simp_all
    show ?thesis
      using hi(2) lo(2) by (auto simp: up down steps_exact)
  qed
  from hi lo le4 exact show ?thesis by blast
qed

text \<open>
  On doubles with bounds 12 and 9 and spread 2 every threshold is exact: 15 lies 3 beyond
  the upper bound, severity 2, and 2 lies 7 below the lower bound, severity 4.
\<close>

theorem computed_severity_steps_witness:
  "(12::real) < 15
   \<and> severity (determine_color_fl round_double 15 12 9 2 False)
       = steps_above 15 (round_double (12 + 2)) (round_double (12 + round_double (2 * 2)))
           (round_double (12 + round_double (3 * 2)))
   \<and> steps_above 15 (round_double (12 + 2)) (round_double (12 + round_double (2 * 2)))
           (round_double (12 + round_double (3 * 2))) = 2
   \<and> determine_color_fl round_double 15 12 9 2 False = ''#ED2B2A''
   \<and> \<not> (12::real) < 2 \<and> (2::real) < 9
   \<and> severity (determine_color_fl round_double 2 12 9 2 False)
       = steps_below 2 (round_double (9 - 2)) (round_double (9 - round_double (2 * 2)))
           (round_double (9 - round_double (3 * 2)))
   \<and> determine_color_fl round_double 2 12 9 2 False = ''#618264''
   \<and> round_double (2 * 2) = 2 * 2 \<and> round_double (3 * 2) = 3 * 2
   \<and> round_double (12 + 2) = 12 + 2 \<and> round_double (12 + 2 * 2) = 12 + 2 * 2
   \<and> round_double (12 + 3 * 2) = 12 + 3 * 2 \<and> round_double (9 - 2) = 9 - 2
   \<and> round_double (9 - 2 * 2) = 9 - 2 * 2 \<and> round_double (9 - 3 * 2) = 9 - 3 * 2
   \<and> severity (determine_color_fl round_double 15 12 9 2 False) = severity_step 2 (15 - 12)
   \<and> severity (determine_color_fl round_double 2 12 9 2 False) = severity_step 2 (9 - 2)"
proof -
  have a: "(12::real) < 15" "\<not> (12::real) < 2" "(2::real) < 9" by simp_all
  have ex: "round_double (2 * 2) = 2 * 2" "round_double (3 * 2) = 3 * 2"
    "round_double (12 + 2) = 12 + 2" "round_double (12 + 2 * 2) = 12 + 2 * 2"
    "round_double (12 + 3 * 2) = 12 + 3 * 2" "round_double (9 - 2) = 9 - 2"
    "round_double (9 - 2 * 2) = 9 - 2 * 2" "round_double (9 - 3 * 2) = 9 - 3 * 2"
    by simp_all
  then have all: "\<forall>x \<in> set [2 * 2, 3 * 2, 12 + 2, 12 + 2 * 2, 12 + 3 * 2,
                     9 - 2, 9 - 2 * 2, 9 - 3 * 2 :: real]. round_double x = x"
    by simp
  have up: "steps_above 15 (round_double (12 + 2)) (round_double (12 + round_double (2 * 2)))
           (round_double (12 + round_double (3 * 2))) = 2"
    by (simp add: steps_above_def)
  have c1: "determine_color_fl round_double 15 12 9 2 False = ''#ED2B2A''"
    by (simp add: determine_color_fl_def red_pallete_def)
  have c2: "determine_color_fl round_double 2 12 9 2 False = ''#618264''"
    by (simp add: determine_color_fl_def green_pallete_def)
  note hi = computed_severity_steps [of 12 15 round_double 9 2 False]
  note lo = computed_severity_steps [of 12 2 round_double 9 2 False]
  from hi a have s1: "severity (determine_color_fl round_double 15 12 9 2 False)
       = steps_above 15 (round_double (12 + 2)) (round_double (12 + round_double (2 * 2)))
           (round_double (12 + round_double (3 * 2)))"
    by blast
  from lo a have s2: "severity (determine_color_fl round_double 2 12 9 2 False)
       = steps_below 2 (round_double (9 - 2)) (round_double (9 - round_double (2 * 2)))
           (round_double (9 - round_double (3 * 2)))"
    by blast
  from hi a all have s3: "severity (determine_color_fl round_double 15 12 9 2 False)
       = severity_step 2 (15 - 12)"
    by blast
  from lo a all have s4: "severity (determine_color_fl round_double 2 12 9 2 False)
       = severity_step 2 (9 - 2)"
    by blast
  from a ex up c1 c2 s1 s2 s3 s4 show ?thesis
    by blast
qed

text \<open>
  Claim C6 says that \<open>mean + spread + \<epsilon>\<close> without reversal and \<open>mean - spread - \<epsilon>\<close>
  with reversal get the same severity. On doubles, with mean 1, spread 1 and \<open>\<epsilon>\<close> the
  double after 1, the sum \<^verbatim>\<open>1.0 + 1.0 + 1.0000000000000002\<close> is rounded to 3, which does
  not pass the first threshold 3: severity 1. The difference
  \<^verbatim>\<open>1.0 - 1.0 - 1.0000000000000002\<close> is exact and lies below the first threshold -1:
  severity 2.
\<close>

theorem rounded_symmetry_counterexample:
  "round_double 1 = 1 \<and> round_double one_and_ulp = one_and_ulp
   \<and> (0::real) < 1 \<and> 0 < one_and_ulp
   \<and> round_double (round_double (1 + 1) + one_and_ulp) = 3
   \<and> round_double (round_double (1 - 1) - one_and_ulp) = - one_and_ulp
   \<and> determine_color_fl round_double (round_double (round_double (1 + 1) + one_and_ulp))
        (upper_fl round_double 1 1 False) (lower_fl round_double 1 1 False) 1 False = ''#F15A59''
   \<and> severity (determine_color_fl round_double (round_double (round_double (1 + 1) + one_and_ulp))
        (upper_fl round_double 1 1 False) (lower_fl round_double 1 1 False) 1 False) = 1
   \<and> determine_color_fl round_double (round_double (round_double (1 - 1) - one_and_ulp))
        (upper_fl round_double 1 1 True) (lower_fl round_double 1 1 True) 1 True = ''#ED2B2A''
   \<and> severity (determine_color_fl round_double (round_double (round_double (1 - 1) - one_and_ulp))
        (upper_fl round_double 1 1 True) (lower_fl round_double 1 1 True) 1 True) = 2"
proof -
  have pos: "(0::real) < 1" "0 < one_and_ulp"
    using ulp_order by simp_all
  have hv: "round_double (round_double (1 + 1) + one_and_ulp) = 3"
    by (simp add: ulp_tie ulp_neg)
  have lv: "round_double (round_double (1 - 1) - one_and_ulp) = - one_and_ulp"
    by (simp add: ulp_tie ulp_neg)
  have uh: "upper_fl round_double 1 1 False = 2"
    by (simp add: upper_fl_def)
  have ul: "upper_fl round_double 1 1 True = 3 / 2"
    by (simp add: upper_fl_def round_double_half round_double_three_halves)
  have ll: "lower_fl round_double 1 1 True = 0"
    by (simp add: lower_fl_def)
  have hi: "determine_color_fl round_double (round_double (round_double (1 + 1) + one_and_ulp))
        (upper_fl round_double 1 1 False) (lower_fl round_double 1 1 False) 1 False = ''#F15A59''"
    unfolding hv uh by (simp add: determine_color_fl_def red_pallete_def)
  have lo: "determine_color_fl round_double (round_double (round_double (1 - 1) - one_and_ulp))
        (upper_fl round_double 1 1 True) (lower_fl round_double 1 1 True) 1 True = ''#ED2B2A''"
    unfolding lv ul ll using ulp_order by (simp add: determine_color_fl_def red_pallete_def)
  have sev: "severity ''#F15A59'' = 1" "severity ''#ED2B2A'' = 2"
    by (simp_all add: severity_def red_pallete_def green_pallete_def)
  from pos hv lv hi lo sev ulp_double show ?thesis
    by simp
qed

text \<open>
  Claim C6, as the code has it. For every mean, positive spread and positive \<open>\<epsilon>\<close>, when
  the two values, the bounds and the thresholds are computed without rounding error, the
  value \<open>mean + spread + \<epsilon>\<close> classified without reversal and the value
  \<open>mean - spread - \<epsilon>\<close> classified with reversal get the same severity level,
  \<open>severity_step spread \<epsilon>\<close>. Both fall on the full-width side of their band, so both
  colours come from the red palette and are equal; only the direction of the excursion
  differs.
\<close>

theorem exact_classifier_symmetry:
  assumes "0 < sd" and "0 < eps"
    and exact: "\<forall>x \<in> set [mean + sd, mean + sd + eps, mean - sd, mean - sd - eps,
                            sd / 2, mean + sd / 2, 2 * sd, 3 * sd,
                            mean + sd + sd, mean + sd + 2 * sd, mean + sd + 3 * sd,
                            mean - sd - sd, mean - sd - 2 * sd, mean - sd - 3 * sd]. fl x = x"
  shows "determine_color_fl fl (fl (fl (mean + sd) + eps))
           (upper_fl fl mean sd False) (lower_fl fl mean sd False) sd False
         = determine_color_fl fl (fl (fl (mean - sd) - eps))
             (upper_fl fl mean sd True) (lower_fl fl mean sd True) sd True
       \<and> determine_color_fl fl (fl (fl (mean + sd) + eps))
           (upper_fl fl mean sd False) (lower_fl fl mean sd False) sd False
         = red_pallete ! (severity_step sd eps - 1)
       \<and> severity (determine_color_fl fl (fl (fl (mean + sd) + eps))
           (upper_fl fl mean sd False) (lower_fl fl mean sd False) sd False)
         = severity_step sd eps
       \<and> severity (determine_color_fl fl (fl (fl (mean - sd) - eps))
             (upper_fl fl mean sd True) (lower_fl fl mean sd True) sd True)
         = severity_step sd eps"
proof -
  from exact have e:
    "fl (mean + sd) = mean + sd" "fl (mean + sd + eps) = mean + sd + eps"
    "fl (mean - sd) = mean - sd" "fl (mean - sd - eps) = mean - sd - eps"
    "fl (sd / 2) = sd / 2" "fl (mean + sd / 2) = mean + sd / 2"
    "fl (2 * sd) = 2 * sd" "fl (3 * sd) = 3 * sd"
    "fl (mean + sd + sd) = mean + sd + sd" "fl (mean + sd + 2 * sd) = mean + sd + 2 * sd"
    "fl (mean + sd + 3 * sd) = mean + sd + 3 * sd"
    "fl (mean - sd - sd) = mean - sd - sd" "fl (mean - sd - 2 * sd) = mean - sd - 2 * sd"
    "fl (mean - sd - 3 * sd) = mean - sd - 3 * sd"
    by simp_all
  let ?hi = "determine_color_fl fl (fl (fl (mean + sd) + eps))
           (upper_fl fl mean sd False) (lower_fl fl mean sd False) sd False"
  let ?lo = "determine_color_fl fl (fl (fl (mean - sd) - eps))
             (upper_fl fl mean sd True) (lower_fl fl mean sd True) sd True"
  have vh: "fl (fl (mean + sd) + eps) = mean + sd + eps"
    and vl: "fl (fl (mean - sd) - eps) = mean - sd - eps"
    and uh: "upper_fl fl mean sd False = mean + sd"
    and ul: "upper_fl fl mean sd True = mean + sd / 2"
    and ll: "lower_fl fl mean sd True = mean - sd"
    by (simp_all only: e upper_fl_def lower_fl_def if_True if_False)
  have "mean + sd < mean + sd + eps"
    using assms(2) by simp
  then have "determine_color_fl fl (mean + sd + eps) (mean + sd) (lower_fl fl mean sd False) sd False
               = (if False then green_pallete else red_pallete)
                   ! (steps_above (mean + sd + eps) (fl (mean + sd + sd))
                        (fl (mean + sd + fl (2 * sd))) (fl (mean + sd + fl (3 * sd))) - 1)"
    by (rule high_side_fl)
  then have "?hi = red_pallete
                   ! (steps_above (mean + sd + eps) (mean + sd + sd)
                        (mean + sd + 2 * sd) (mean + sd + 3 * sd) - 1)"
    by (simp only: vh uh e if_False)
  then have a: "?hi = red_pallete ! (severity_step sd eps - 1)"
    using steps_exact(1) [of "mean + sd + eps" "mean + sd" sd] by simp
  have "\<not> mean + sd / 2 < mean - sd - eps" "mean - sd - eps < mean - sd"
    using assms by simp_all
  then have "determine_color_fl fl (mean - sd - eps) (mean + sd / 2) (mean - sd) sd True
               = (if True then red_pallete else green_pallete)
                   ! (steps_below (mean - sd - eps) (fl (mean - sd - sd))
                        (fl (mean - sd - fl (2 * sd))) (fl (mean - sd - fl (3 * sd))) - 1)"
    by (rule low_side_fl)
  then have "?lo = red_pallete
                   ! (steps_below (mean - sd - eps) (mean - sd - sd)
                        (mean - sd - 2 * sd) (mean - sd - 3 * sd) - 1)"
    by (simp only: vl ul ll e if_True)
  then have b: "?lo = red_pallete ! (severity_step sd eps - 1)"
    using steps_exact(2) [of "mean - sd - eps" "mean - sd" sd] by simp
  have s: "severity (red_pallete ! (severity_step sd eps - 1)) = severity_step sd eps"
    using severity_step_range [of sd eps] severity_pallete [of "severity_step sd eps"] by simp
  show ?thesis unfolding a b using s by simp
qed

text \<open>
  On doubles with mean 10, spread 2 and \<open>\<epsilon> = 3\<close> every sum is exact: the values 15 and 5
  both get the second red.
\<close>

theorem exact_classifier_symmetry_witness:
  "(0::real) < 2 \<and> (0::real) < 3
   \<and> round_double (10 + 2) = 10 + 2 \<and> round_double (10 + 2 + 3) = 10 + 2 + 3
   \<and> round_double (10 - 2) = 10 - 2 \<and> round_double (10 - 2 - 3) = 10 - 2 - 3
   \<and> round_double (2 / 2) = 2 / 2 \<and> round_double (10 + 2 / 2) = 10 + 2 / 2
   \<and> round_double (2 * 2) = 2 * 2 \<and> round_double (3 * 2) = 3 * 2
   \<and> round_double (10 + 2 + 2) = 10 + 2 + 2 \<and> round_double (10 + 2 + 2 * 2) = 10 + 2 + 2 * 2
   \<and> round_double (10 + 2 + 3 * 2) = 10 + 2 + 3 * 2
   \<and> round_double (10 - 2 - 2) = 10 - 2 - 2 \<and> round_double (10 - 2 - 2 * 2) = 10 - 2 - 2 * 2
   \<and> round_double (10 - 2 - 3 * 2) = 10 - 2 - 3 * 2
   \<and> determine_color_fl round_double (round_double (round_double (10 + 2) + 3))
        (upper_fl round_double 10 2 False) (lower_fl round_double 10 2 False) 2 False
       = determine_color_fl round_double (round_double (round_double (10 - 2) - 3))
           (upper_fl round_double 10 2 True) (lower_fl round_double 10 2 True) 2 True
   \<and> determine_color_fl round_double (round_double (round_double (10 - 2) - 3))
           (upper_fl round_double 10 2 True) (lower_fl round_double 10 2 True) 2 True
       = ''#ED2B2A''
   \<and> severity_step 2 3 = 2"
proof -
  have a: "(0::real) < 2" and b: "(0::real) < 3" by simp_all
  have ex: "round_double (10 + 2) = 10 + 2" "round_double (10 + 2 + 3) = 10 + 2 + 3"
    "round_double (10 - 2) = 10 - 2" "round_double (10 - 2 - 3) = 10 - 2 - 3"
    "round_double (2 / 2) = 2 / 2" "round_double (10 + 2 / 2) = 10 + 2 / 2"
    "round_double (2 * 2) = 2 * 2" "round_double (3 * 2) = 3 * 2"
    "round_double (10 + 2 + 2) = 10 + 2 + 2" "round_double (10 + 2 + 2 * 2) = 10 + 2 + 2 * 2"
    "round_double (10 + 2 + 3 * 2) = 10 + 2 + 3 * 2"
    "round_double (10 - 2 - 2) = 10 - 2 - 2" "round_double (10 - 2 - 2 * 2) = 10 - 2 - 2 * 2"
    "round_double (10 - 2 - 3 * 2) = 10 - 2 - 3 * 2"
    by simp_all
  then have all: "\<forall>x \<in> set [10 + 2, 10 + 2 + 3, 10 - 2, 10 - 2 - 3,
                            2 / 2, 10 + 2 / 2, 2 * 2, 3 * 2,
                            10 + 2 + 2, 10 + 2 + 2 * 2, 10 + 2 + 3 * 2,
                            10 - 2 - 2, 10 - 2 - 2 * 2, 10 - 2 - 3 * 2 :: real].
                  round_double x = x"
    by simp
  have c: "severity_step 2 3 = 2" by (simp add: severity_step_def)
  have d: "determine_color_fl round_double (round_double (round_double (10 - 2) - 3))
           (upper_fl round_double 10 2 True) (lower_fl round_double 10 2 True) 2 True
       = ''#ED2B2A''"
    by (simp add: determine_color_fl_def upper_fl_def lower_fl_def red_pallete_def)
  from exact_classifier_symmetry [OF a b all] a b ex c d show ?thesis
    by blast
qed

text \<open>
  Claim C10. For every value, upper bound, lower bound and spread, \<^verbatim>\<open>determine_color\<close> with
  \<^verbatim>\<open>reverse=True\<close> returns what it returns with \<^verbatim>\<open>reverse=False\<close> on the same arguments with
  the red and green palettes exchanged at the same index; the two calls return \<^verbatim>\<open>'blue'\<close>
  on exactly the same inputs, and the severity is the same.
\<close>

theorem reverse_swaps_palletes:
  "determine_color v upper_bound lower_bound sd True
     = swap_pallete (determine_color v upper_bound lower_bound sd False)
   \<and> (determine_color v upper_bound lower_bound sd True = ''blue'')
     = (determine_color v upper_bound lower_bound sd False = ''blue'')
   \<and> severity (determine_color v upper_bound lower_bound sd True)
     = severity (determine_color v upper_bound lower_bound sd False)"
  by (simp add: determine_color_def swap_pallete_def severity_def red_pallete_def green_pallete_def)

text \<open>
  Claim C5 says that with a spread of zero a value exactly at the bound is classified at
  severity 1 at least. The comparisons that leave the neutral band are strict, so with
  spread 0 and mean 5 the value 5 is neutral, in both directions.
\<close>

theorem zero_spread_at_bound_counterexample:
  "determine_color 5 (upper_of 5 0 True) (lower_of 5 0 True) 0 True = ''blue'' \<and>
   severity (determine_color 5 (upper_of 5 0 True) (lower_of 5 0 True) 0 True) = 0 \<and>
   determine_color 5 (upper_of 5 0 False) (lower_of 5 0 False) 0 False = ''blue'' \<and>
   severity (determine_color 5 (upper_of 5 0 False) (lower_of 5 0 False) 0 False) = 0"
  by (simp add: determine_color_def upper_of_def lower_of_def severity_def
        red_pallete_def green_pallete_def)

text \<open>The loop of \<^verbatim>\<open>calculate_outlier_footprints\<close> returns when every index has a footprint.\<close>

lemma outlier_loop_completes:
  "\<forall>i \<in> set idxs. i < length footprints \<Longrightarrow>
   \<exists>res. outlier_loop footprints values mean sd kpi idxs acc = Inr res"
proof (induction idxs arbitrary: acc)
  case Nil
  then show ?case by simp
next
  case (Cons i rest)
  obtain outliers outlier_colors where acc: "acc = (outliers, outlier_colors)"
    by (cases acc)
  from Cons.prems have i: "\<not> length footprints \<le> i" and rest: "\<forall>j \<in> set rest. j < length footprints"
    by auto
  show ?case
    unfolding acc using i Cons.IH [OF rest] by (simp add: Let_def)
qed

text \<open>
  Claim C5, as the code has it. With a spread of zero both bounds are the mean. A value
  different from the mean is beyond a bound and gets severity 4 (so at least 1, and not
  neutral); a value equal to the mean is neutral. No step divides by the spread:
  \<^verbatim>\<open>calculate_outlier_footprints\<close> returns a result, not an error, whenever every value has
  a footprint.
\<close>

theorem zero_spread:
  "(v \<noteq> mean \<longrightarrow>
      severity (determine_color v (upper_of mean 0 reversed) (lower_of mean 0 reversed) 0 reversed) = 4)
   \<and> (v = mean \<longrightarrow>
      determine_color v (upper_of mean 0 reversed) (lower_of mean 0 reversed) 0 reversed = ''blue'')
   \<and> (length values \<le> length footprints \<longrightarrow>
      (\<exists>res. calculate_outlier_footprints footprints values mean 0 kpi = Inr res))"
proof -
  have bounds: "upper_of mean 0 reversed = mean" "lower_of mean 0 reversed = mean"
    by (simp_all add: upper_of_def lower_of_def)
  have beyond: "severity (determine_color v mean mean 0 reversed) = 4" if "v \<noteq> mean"
  proof (cases "mean < v")
    case True
    then have "determine_color v mean mean 0 reversed
                 = (if reversed then green_pallete else red_pallete) ! (severity_step 0 (v - mean) - 1)"
      by (rule high_side)
    moreover have "severity_step 0 (v - mean) = 4"
      using True by (simp add: severity_step_def)
    ultimately show ?thesis
      by (simp add: severity_def red_pallete_def green_pallete_def)
  next
    case False
    with that have low: "v < mean" by simp
    from False low have "determine_color v mean mean 0 reversed
                 = (if reversed then red_pallete else green_pallete) ! (severity_step 0 (mean - v) - 1)"
      by (rule low_side)
    moreover have "severity_step 0 (mean - v) = 4"
      using low by (simp add: severity_step_def)
    ultimately show ?thesis
      by (simp add: severity_def red_pallete_def green_pallete_def)
  qed
  have at: "determine_color mean mean mean 0 reversed = ''blue''"
    by (rule determine_color_neutral) simp_all
  have runs: "\<exists>res. calculate_outlier_footprints footprints values mean 0 kpi = Inr res"
    if "length values \<le> length footprints"
    unfolding calculate_outlier_footprints_def
    using that by (intro outlier_loop_completes) auto
  from beyond at runs show ?thesis
    unfolding bounds by blast
qed

text \<open>With mean 5 and spread 0 for OEE, the value 7 is an outlier of severity 4 and 5 is not.\<close>

theorem zero_spread_witness:
  "(7::real) \<noteq> 5 \<and>
   severity (determine_color 7 (upper_of 5 0 True) (lower_of 5 0 True) 0 True) = 4 \<and>
   determine_color 7 (upper_of 5 0 True) (lower_of 5 0 True) 0 True = ''#618264'' \<and>
   determine_color 5 (upper_of 5 0 True) (lower_of 5 0 True) 0 True = ''blue'' \<and>
   length [7, 5 :: real] \<le> length [(''A'', ''B''), (''B'', ''C'')] \<and>
   calculate_outlier_footprints [(''A'', ''B''), (''B'', ''C'')] [7, 5] 5 0 ''OEE''
     = Inr ([(''A'', ''B'')], [''#618264''])"
proof -
  have a: "(7::real) \<noteq> 5" by simp
  have b: "determine_color 7 (upper_of 5 0 True) (lower_of 5 0 True) 0 True = ''#618264''"
    by (simp add: determine_color_def upper_of_def lower_of_def green_pallete_def)
  have c: "calculate_outlier_footprints [(''A'', ''B''), (''B'', ''C'')] [7, 5] 5 0 ''OEE''
             = Inr ([(''A'', ''B'')], [''#618264''])"
    by (simp add: calculate_outlier_footprints_def determine_color_def green_pallete_def
          red_pallete_def upt_rec [of 0] upt_rec [of 1])
  have d: "length [7, 5 :: real] \<le> length [(''A'', ''B''), (''B'', ''C'')]" by simp
  from zero_spread [of 7 5 True "[7, 5]" "[(''A'', ''B''), (''B'', ''C'')]" "''OEE''"]
    zero_spread [of 5 5 True "[7, 5]" "[(''A'', ''B''), (''B'', ''C'')]" "''OEE''"] a b c d
  show ?thesis by blast
qed

subsection \<open>The loops in closed form\<close>

lemma contract_kpi_data_rows:
  "contract_kpi_data data c = (if contract_rows data c = [] then [] else [contract_kpis data c])"
  by (simp add: contract_kpi_data_def contract_kpis_def contract_mean_def Let_def)

lemma iloc0_contract:
  "iloc0 (contract_kpi_data data c) = Inr k \<Longrightarrow> k = contract_kpis data c"
  by (auto simp: contract_kpi_data_rows iloc0_def split: if_splits)

lemma summarize_Nil [simp]: "summarize [] = None"
  by (simp add: summarize_def)

lemma listing_Nil [simp]: "listing [] = None"
  by (simp add: listing_def)

lemma summarize_snoc:
  "(case summarize ks of
      None \<Rightarrow> Some \<lparr>oee = OEE k, lead_time = Lead_Time k,
                     malfunction_duration = Malfunction_Duration k,
                     rejection_count = Rejected_Materials k, count = 1\<rparr>
    | Some a \<Rightarrow> Some (a\<lparr>oee := oee a + OEE k,
                     lead_time := lead_time a + Lead_Time k,
                     malfunction_duration := malfunction_duration a + Malfunction_Duration k,
                     rejection_count := rejection_count a + Rejected_Materials k,
                     count := count a + 1\<rparr>)) = summarize (ks @ [k])"
  by (simp add: summarize_def)

lemma listing_snoc:
  "(case listing cs of None \<Rightarrow> Some [c] | Some cs' \<Rightarrow> Some (cs' @ [c])) = listing (cs @ [c])"
  by (simp add: listing_def)

text \<open>
  One pass of the inner loop, seen from a single footprint \<open>fp0\<close>: the contract's row is
  added once for every occurrence of \<open>fp0\<close> in the baseline list, provided the contract
  shows \<open>fp0\<close>.
\<close>

lemma attribute_kpis:
  assumes "attribute_footprints kpi_data dfg c fps (fk, fc) = Inr (fk', fc')"
    and "\<And>k'. iloc0 kpi_data = Inr k' \<Longrightarrow> k' = k"
    and "fk fp0 = summarize ks"
  shows "fk' fp0 = summarize (ks @ (if fp0 \<in> set dfg then replicate (count_list fps fp0) k else []))"
  using assms(1,3)
proof (induction fps arbitrary: fk fc ks)
  case Nil
  then show ?case by simp
next
  case (Cons fp rest)
  show ?case
  proof (cases "fp \<in> set dfg")
    case False
    with Cons.prems(1) have "attribute_footprints kpi_data dfg c rest (fk, fc) = Inr (fk', fc')"
      by simp
    from Cons.IH [OF this Cons.prems(2)] False show ?thesis by auto
  next
    case True
    with Cons.prems(1) obtain k' where k': "iloc0 kpi_data = Inr k'"
      by (cases "iloc0 kpi_data") auto
    with assms(2) have kk: "k' = k" by simp
    let ?fk = "case fk fp of
        None \<Rightarrow> fk(fp \<mapsto> \<lparr>oee = OEE k, lead_time = Lead_Time k,
                     malfunction_duration = Malfunction_Duration k,
                     rejection_count = Rejected_Materials k, count = 1\<rparr>)
      | Some a \<Rightarrow> fk(fp \<mapsto> a\<lparr>oee := oee a + OEE k,
                     lead_time := lead_time a + Lead_Time k,
                     malfunction_duration := malfunction_duration a + Malfunction_Duration k,
                     rejection_count := rejection_count a + Rejected_Materials k,
                     count := count a + 1\<rparr>)"
    let ?fc = "case fc fp of None \<Rightarrow> fc(fp \<mapsto> [c]) | Some cs \<Rightarrow> fc(fp \<mapsto> cs @ [c])"
    from Cons.prems(1) True k' kk
    have run: "attribute_footprints kpi_data dfg c rest (?fk, ?fc) = Inr (fk', fc')"
      by (simp add: Let_def)
    show ?thesis
    proof (cases "fp0 = fp")
      case same: True
      have "?fk fp0 = summarize (ks @ [k])"
        using Cons.prems(2) summarize_snoc [where ks = ks and k = k] same by (auto split: option.splits)
      from Cons.IH [OF run this] same True show ?thesis
        by (simp add: replicate_append_same)
    next
      case diff: False
      then have "?fk fp0 = summarize ks"
        using Cons.prems(2) by (auto split: option.splits)
      from Cons.IH [OF run this] diff show ?thesis by auto
    qed
  qed
qed

lemma attribute_contracts:
  assumes "attribute_footprints kpi_data dfg c fps (fk, fc) = Inr (fk', fc')"
    and "fc fp0 = listing cs"
  shows "fc' fp0 = listing (cs @ (if fp0 \<in> set dfg then replicate (count_list fps fp0) c else []))"
  using assms
proof (induction fps arbitrary: fk fc cs)
  case Nil
  then show ?case by simp
next
  case (Cons fp rest)
  show ?case
  proof (cases "fp \<in> set dfg")
    case False
    with Cons.prems(1) have "attribute_footprints kpi_data dfg c rest (fk, fc) = Inr (fk', fc')"
      by simp
    from Cons.IH [OF this Cons.prems(2)] False show ?thesis by auto
  next
    case True
    with Cons.prems(1) obtain k where k: "iloc0 kpi_data = Inr k"
      by (cases "iloc0 kpi_data") auto
    let ?fk = "case fk fp of
        None \<Rightarrow> fk(fp \<mapsto> \<lparr>oee = OEE k, lead_time = Lead_Time k,
                     malfunction_duration = Malfunction_Duration k,
                     rejection_count = Rejected_Materials k, count = 1\<rparr>)
      | Some a \<Rightarrow> fk(fp \<mapsto> a\<lparr>oee := oee a + OEE k,
                     lead_time := lead_time a + Lead_Time k,
                     malfunction_duration := malfunction_duration a + Malfunction_Duration k,
                     rejection_count := rejection_count a + Rejected_Materials k,
                     count := count a + 1\<rparr>)"
    let ?fc = "case fc fp of None \<Rightarrow> fc(fp \<mapsto> [c]) | Some cs \<Rightarrow> fc(fp \<mapsto> cs @ [c])"
    from Cons.prems(1) True k
    have run: "attribute_footprints kpi_data dfg c rest (?fk, ?fc) = Inr (fk', fc')"
      by (simp add: Let_def)
    show ?thesis
    proof (cases "fp0 = fp")
      case same: True
      have "?fc fp0 = listing (cs @ [c])"
        using Cons.prems(2) listing_snoc [where cs = cs and c = c] same by (auto split: option.splits)
      from Cons.IH [OF run this] same True show ?thesis
        by (simp add: replicate_append_same)
    next
      case diff: False
      then have "?fc fp0 = listing cs"
        using Cons.prems(2) by (auto split: option.splits)
      from Cons.IH [OF run this] diff show ?thesis by auto
    qed
  qed
qed

lemma history_Nil [simp]: "history discover data extracted [] fp = []"
  by (simp add: history_def)

lemma history_Cons:
  "history discover data extracted (c # cs) fp =
     (if fp \<in> set (footprints_of (contract_footprints discover data c))
      then replicate (count_list extracted fp) c else []) @ history discover data extracted cs fp"
  by (simp add: history_def)

lemma history_contributing:
  "history discover data extracted contracts fp =
     concat (map (replicate (count_list extracted fp)) (contributing discover data contracts fp))"
  by (induction contracts) (simp_all add: history_def contributing_def)

lemma sum_list_concat_replicate:
  fixes f :: "'a \<Rightarrow> real"
  shows "sum_list (map f (concat (map (replicate m) xs))) = real m * sum_list (map f xs)"
  by (induction xs) (simp_all add: sum_list_replicate algebra_simps)

lemma length_concat_replicate:
  "length (concat (map (replicate m) xs)) = m * length xs"
  by (induction xs) simp_all

lemma concat_replicate_0 [simp]: "concat (map (replicate 0) xs) = []"
  by (induction xs) simp_all

lemma process_kpis:
  assumes "process_contracts discover data extracted contracts (fk, fc) = Inr (fk', fc')"
    and "fk fp0 = summarize ks"
  shows "fk' fp0 = summarize (ks @ map (contract_kpis data)
                                     (history discover data extracted contracts fp0))"
  using assms
proof (induction contracts arbitrary: fk fc ks)
  case Nil
  then show ?case by simp
next
  case (Cons c rest)
  from Cons.prems(1) obtain dfg fk1 fc1 where
    dfg: "contract_footprints discover data c = Inr dfg"
    and inner: "attribute_footprints (contract_kpi_data data c) dfg c extracted (fk, fc)
                  = Inr (fk1, fc1)"
    and outer: "process_contracts discover data extracted rest (fk1, fc1) = Inr (fk', fc')"
    by (auto simp: Let_def split: sum.splits)
  have "fk1 fp0 = summarize (ks @ (if fp0 \<in> set dfg
                                    then replicate (count_list extracted fp0) (contract_kpis data c)
                                    else []))"
    using inner iloc0_contract Cons.prems(2) by (rule attribute_kpis)
  from Cons.IH [OF outer this] show ?case
    by (simp add: history_Cons dfg footprints_of_def)
qed

lemma process_contracts_listing:
  assumes "process_contracts discover data extracted contracts (fk, fc) = Inr (fk', fc')"
    and "fc fp0 = listing cs"
  shows "fc' fp0 = listing (cs @ history discover data extracted contracts fp0)"
  using assms
proof (induction contracts arbitrary: fk fc cs)
  case Nil
  then show ?case by simp
next
  case (Cons c rest)
  from Cons.prems(1) obtain dfg fk1 fc1 where
    dfg: "contract_footprints discover data c = Inr dfg"
    and inner: "attribute_footprints (contract_kpi_data data c) dfg c extracted (fk, fc)
                  = Inr (fk1, fc1)"
    and outer: "process_contracts discover data extracted rest (fk1, fc1) = Inr (fk', fc')"
    by (auto simp: Let_def split: sum.splits)
  have "fc1 fp0 = listing (cs @ (if fp0 \<in> set dfg
                                  then replicate (count_list extracted fp0) c else []))"
    using inner Cons.prems(2) by (rule attribute_contracts)
  from Cons.IH [OF outer this] show ?case
    by (simp add: history_Cons dfg footprints_of_def)
qed

lemma live_kpis:
  assumes "process_contracts discover data extracted contracts (Map.empty, Map.empty) = Inr (fk, fc)"
  shows "fk fp = summarize (map (contract_kpis data)
                   (concat (map (replicate (count_list extracted fp))
                                (contributing discover data contracts fp))))"
    and "fc fp = listing (concat (map (replicate (count_list extracted fp))
                                (contributing discover data contracts fp)))"
proof -
  have "fk fp = summarize ([] @ map (contract_kpis data)
                                  (history discover data extracted contracts fp))"
    using assms by (rule process_kpis) simp
  then show "fk fp = summarize (map (contract_kpis data)
                   (concat (map (replicate (count_list extracted fp))
                                (contributing discover data contracts fp))))"
    by (simp add: history_contributing)
  have "fc fp = listing ([] @ history discover data extracted contracts fp)"
    using assms by (rule process_contracts_listing) simp
  then show "fc fp = listing (concat (map (replicate (count_list extracted fp))
                                (contributing discover data contracts fp)))"
    by (simp add: history_contributing)
qed

text \<open>
  Every accumulator that exists has a positive count, so the means never divide by zero.
\<close>

lemma count_positive:
  assumes "process_contracts discover data extracted contracts (Map.empty, Map.empty) = Inr (fk, fc)"
    and "fk fp = Some a"
  shows "1 \<le> count a"
proof -
  from live_kpis(1) [OF assms(1), of fp] assms(2)
  show ?thesis
    by (auto simp: summarize_def Suc_le_eq split: if_splits)
qed

text \<open>
  The finalizing loop: it returns its input when no footprint is live, the closed form when
  the baseline table has a row, and raises otherwise.
\<close>

lemma finalize_none_live:
  "live fk fps = [] \<Longrightarrow> finalize_footprints fk mnum fps (kv, d) = Inr (kv, d)"
  by (induction fps) (auto simp: live_def split: if_splits)

lemma finalize_with_soll:
  "finalize_footprints fk (soll # others) fps (kv, d) = Inr (finalized fk soll fps kv d)"
proof (induction fps arbitrary: kv d)
  case Nil
  show ?case by (simp add: finalized_def live_def)
next
  case (Cons fp rest)
  show ?case
  proof (cases "fk fp")
    case None
    then show ?thesis
      using Cons.IH [of kv d] by (simp add: finalized_def live_def)
  next
    case (Some a)
    then show ?thesis
      by (simp add: Cons.IH iloc0_def Let_def) (simp add: finalized_def live_def mean_of_def)
  qed
qed

lemma finalize_without_soll:
  "live fk fps \<noteq> [] \<Longrightarrow> finalize_footprints fk [] fps (kv, d) = Inl IndexError"
  by (induction fps) (auto simp: live_def iloc0_def Let_def split: if_splits option.splits)

lemma finalize_start:
  assumes "finalize_footprints fk mnum fps (no_kpi_values, no_diff_to_soll) = Inr (kv, d)"
  shows "kv_fp kv = live fk fps"
    and "live fk fps \<noteq> [] \<Longrightarrow>
           mnum \<noteq> [] \<and> (kv, d) = finalized fk (hd mnum) fps no_kpi_values no_diff_to_soll"
proof -
  show "kv_fp kv = live fk fps"
  proof (cases mnum)
    case Nil
    show ?thesis
    proof (cases "live fk fps = []")
      case True
      with assms show ?thesis
        by (auto simp: finalize_none_live no_kpi_values_def)
    next
      case False
      with assms Nil show ?thesis
        by (simp add: finalize_without_soll)
    qed
  next
    case (Cons soll others)
    with assms show ?thesis
      by (auto simp: finalize_with_soll finalized_def no_kpi_values_def)
  qed
  assume ne: "live fk fps \<noteq> []"
  show "mnum \<noteq> [] \<and> (kv, d) = finalized fk (hd mnum) fps no_kpi_values no_diff_to_soll"
  proof (cases mnum)
    case Nil
    with assms ne show ?thesis
      by (simp add: finalize_without_soll)
  next
    case (Cons soll others)
    with assms show ?thesis
      by (simp add: finalize_with_soll)
  qed
qed

lemma finalize_shape:
  assumes "finalize_footprints fk mnum fps (no_kpi_values, no_diff_to_soll) = Inr (kv, d)"
  shows "kv_label kv = map fp_label (kv_fp kv) \<and> diff_Footprint d = map fp_label (kv_fp kv)
       \<and> length (kv_OEE kv) = length (kv_fp kv)
       \<and> length (kv_Lead_Time kv) = length (kv_fp kv)
       \<and> length (kv_Malfunction_Duration kv) = length (kv_fp kv)
       \<and> length (kv_Rejected_Materials kv) = length (kv_fp kv)
       \<and> length (diff_OEE d) = length (kv_fp kv)
       \<and> length (diff_Lead_Time d) = length (kv_fp kv)
       \<and> length (diff_Malfunction_Duration d) = length (kv_fp kv)
       \<and> length (diff_Rejected_Materials d) = length (kv_fp kv)"
proof (cases "live fk fps = []")
  case True
  with assms have "kv = no_kpi_values" "d = no_diff_to_soll"
    by (simp_all add: finalize_none_live)
  then show ?thesis
    by (simp add: no_kpi_values_def no_diff_to_soll_def)
next
  case False
  from finalize_start(2) [OF assms False]
  have "(kv, d) = finalized fk (hd mnum) fps no_kpi_values no_diff_to_soll"
    by simp
  then have "kv = fst (finalized fk (hd mnum) fps no_kpi_values no_diff_to_soll)"
    and "d = snd (finalized fk (hd mnum) fps no_kpi_values no_diff_to_soll)"
    by (metis fst_conv, metis snd_conv)
  then show ?thesis
    by (simp add: finalized_def no_kpi_values_def no_diff_to_soll_def)
qed

lemma analyze_run:
  assumes "analyze_footprints_by_kpi discover data contracts mnum = Inr (kv, fc, d)"
  obtains ex fk where
    "extract_footprints discover data ''End Date Actual'' ''Contract'' ''Operation RelNr'' = Inr ex"
    and "process_contracts discover data ex contracts (Map.empty, Map.empty) = Inr (fk, fc)"
    and "finalize_footprints fk mnum ex (no_kpi_values, no_diff_to_soll) = Inr (kv, d)"
  using assms
  by (auto simp: analyze_footprints_by_kpi_def accumulate_def Let_def split: sum.splits prod.splits)

lemma mean_of_summarize:
  assumes fk: "fk fp = summarize (map (contract_kpis data) (concat (map (replicate m) cs)))"
    and m: "0 < m" and cs: "cs \<noteq> []"
  shows "mean_of oee fk fp = sum_list (map (contract_mean ''OEE'' data) cs) / real (length cs)"
    and "mean_of lead_time fk fp
           = sum_list (map (contract_mean ''Lead Time'' data) cs) / real (length cs)"
    and "mean_of malfunction_duration fk fp
           = sum_list (map (contract_mean ''Malfunction Duration'' data) cs) / real (length cs)"
    and "mean_of rejection_count fk fp
           = sum_list (map (contract_mean ''Rejected Materials'' data) cs) / real (length cs)"
proof -
  let ?H = "concat (map (replicate m) cs)"
  have len: "length ?H = m * length cs"
    by (rule length_concat_replicate)
  with m cs have ne: "map (contract_kpis data) ?H \<noteq> []"
    by (metis length_0_conv less_numeral_extra(3) list.map_disc_iff mult_is_0)
  have sums:
    "sum_list (map OEE (map (contract_kpis data) ?H))
       = real m * sum_list (map (contract_mean ''OEE'' data) cs)"
    "sum_list (map Lead_Time (map (contract_kpis data) ?H))
       = real m * sum_list (map (contract_mean ''Lead Time'' data) cs)"
    "sum_list (map Malfunction_Duration (map (contract_kpis data) ?H))
       = real m * sum_list (map (contract_mean ''Malfunction Duration'' data) cs)"
    "sum_list (map Rejected_Materials (map (contract_kpis data) ?H))
       = real m * sum_list (map (contract_mean ''Rejected Materials'' data) cs)"
    using sum_list_concat_replicate [of "contract_mean ''OEE'' data" m cs]
      sum_list_concat_replicate [of "contract_mean ''Lead Time'' data" m cs]
      sum_list_concat_replicate [of "contract_mean ''Malfunction Duration'' data" m cs]
      sum_list_concat_replicate [of "contract_mean ''Rejected Materials'' data" m cs]
    by (simp_all add: o_def contract_kpis_def)
  have the_fk: "the (fk fp) =
      \<lparr>oee = real m * sum_list (map (contract_mean ''OEE'' data) cs),
       lead_time = real m * sum_list (map (contract_mean ''Lead Time'' data) cs),
       malfunction_duration = real m * sum_list (map (contract_mean ''Malfunction Duration'' data) cs),
       rejection_count = real m * sum_list (map (contract_mean ''Rejected Materials'' data) cs),
       count = int (m * length cs)\<rparr>"
    unfolding fk summarize_def using ne sums len by simp
  from m show
    "mean_of oee fk fp = sum_list (map (contract_mean ''OEE'' data) cs) / real (length cs)"
    "mean_of lead_time fk fp
           = sum_list (map (contract_mean ''Lead Time'' data) cs) / real (length cs)"
    "mean_of malfunction_duration fk fp
           = sum_list (map (contract_mean ''Malfunction Duration'' data) cs) / real (length cs)"
    "mean_of rejection_count fk fp
           = sum_list (map (contract_mean ''Rejected Materials'' data) cs) / real (length cs)"
    by (simp_all add: mean_of_def the_fk)
qed

subsection \<open>The analysis on the sample data\<close>

lemma sample_rows_X:
  "contract_rows sample_data ''X'' =
     [production_row ''X'' ''A'' (Some 1) (Some 1) 0.9 10 0 1,
      production_row ''X'' ''B'' (Some 2) (Some 2) 0.9 10 0 1]"
  by (simp add: contract_rows_def sample_data_def production_row_def)

lemma sample_rows_Y:
  "contract_rows sample_data ''Y'' =
     [production_row ''Y'' ''A'' (Some 3) (Some 3) 0.7 20 4 3,
      production_row ''Y'' ''B'' (Some 4) (Some 4) 0.7 20 4 3]"
  by (simp add: contract_rows_def sample_data_def production_row_def)

lemma sample_extracted:
  "extract_footprints discover_footprints sample_data ''End Date Actual'' ''Contract'' ''Operation RelNr''
     = Inr [(''A'', ''B''), (''B'', ''C'')]"
  by (simp add: extract_footprints_def discovery_input_def rename_columns_def sample_data_def
        production_row_def discover_footprints_def directly_follows_def by_timestamp_def)

lemma sample_fp_X:
  "contract_footprints discover_footprints sample_data ''X'' = Inr [(''A'', ''B'')]"
  by (simp add: contract_footprints_def sample_rows_X rename_columns_def
        production_row_def discover_footprints_def directly_follows_def by_timestamp_def)

lemma sample_fp_Y:
  "contract_footprints discover_footprints sample_data ''Y'' = Inr [(''A'', ''B'')]"
  by (simp add: contract_footprints_def sample_rows_Y rename_columns_def
        production_row_def discover_footprints_def directly_follows_def by_timestamp_def)

lemma sample_kpi_X:
  "contract_kpi_data sample_data ''X'' =
     [\<lparr>Contract = ''X'', OEE = 0.9, Lead_Time = 10, Malfunction_Duration = 0,
       Rejected_Materials = 1, Counter = 2\<rparr>]"
  by (simp add: contract_kpi_data_def sample_rows_X col_mean_def production_row_def)

lemma sample_kpi_Y:
  "contract_kpi_data sample_data ''Y'' =
     [\<lparr>Contract = ''Y'', OEE = 0.7, Lead_Time = 20, Malfunction_Duration = 4,
       Rejected_Materials = 3, Counter = 2\<rparr>]"
  by (simp add: contract_kpi_data_def sample_rows_Y col_mean_def production_row_def)

lemma sample_run:
  "analyze_footprints_by_kpi discover_footprints sample_data [''X'', ''Y''] sample_soll =
     Inr (sample_kpi_values, [(''A'', ''B'') \<mapsto> [''X'', ''Y'']], sample_diff_to_soll)"
  by (simp add: analyze_footprints_by_kpi_def accumulate_def sample_extracted sample_fp_X
        sample_fp_Y sample_kpi_X sample_kpi_Y iloc0_def sample_soll_def no_kpi_values_def
        no_diff_to_soll_def fp_label_def sample_kpi_values_def sample_diff_to_soll_def)

lemma interleaved_extracted:
  "extract_footprints flat_follows interleaved_data ''End Date Actual'' ''Contract'' ''Operation RelNr''
     = Inr [(''A'', ''C''), (''C'', ''B'')]"
  by (simp add: extract_footprints_def discovery_input_def rename_columns_def
        interleaved_data_def production_row_def flat_follows_def by_timestamp_def)

lemma interleaved_fp_X:
  "contract_footprints flat_follows interleaved_data ''X'' = Inr [(''A'', ''B'')]"
  by (simp add: contract_footprints_def contract_rows_def interleaved_data_def
        rename_columns_def production_row_def flat_follows_def by_timestamp_def)

lemma interleaved_fp_Y:
  "contract_footprints flat_follows interleaved_data ''Y'' = Inr []"
  by (simp add: contract_footprints_def contract_rows_def interleaved_data_def
        rename_columns_def production_row_def flat_follows_def by_timestamp_def)

lemma interleaved_run:
  "analyze_footprints_by_kpi flat_follows interleaved_data [''X'', ''Y''] sample_soll
     = Inr (no_kpi_values, Map.empty, no_diff_to_soll)"
  by (simp add: analyze_footprints_by_kpi_def accumulate_def interleaved_extracted
        interleaved_fp_X interleaved_fp_Y)

subsection \<open>Properties of the accumulator\<close>

text \<open>
  Claim C1. For every footprint in the finalized output of \<^verbatim>\<open>analyze_footprints_by_kpi\<close> (at
  any index \<open>i\<close> of the parallel lists), at least one contract contributed to it, each of
  the four reported KPI values is the sum of the per-contract KPI means of the contributing
  contracts divided by their number, the baseline table has a first row and each reported
  difference is the footprint's mean minus the baseline mean of that row. In particular,
  when exactly two contracts A and B contributed, each mean is (A's value + B's value) / 2.
\<close>

theorem accumulated_means:
  assumes run: "analyze_footprints_by_kpi discover data contracts kpi_data_mnummer = Inr (kv, fc, d)"
    and i: "i < length (kv_fp kv)"
  shows "contributing discover data contracts (kv_fp kv ! i) \<noteq> []
    \<and> kv_OEE kv ! i = kpi_sum ''OEE'' discover data contracts (kv_fp kv ! i)
                        / real (length (contributing discover data contracts (kv_fp kv ! i)))
    \<and> kv_Lead_Time kv ! i = kpi_sum ''Lead Time'' discover data contracts (kv_fp kv ! i)
                        / real (length (contributing discover data contracts (kv_fp kv ! i)))
    \<and> kv_Malfunction_Duration kv ! i
         = kpi_sum ''Malfunction Duration'' discover data contracts (kv_fp kv ! i)
             / real (length (contributing discover data contracts (kv_fp kv ! i)))
    \<and> kv_Rejected_Materials kv ! i
         = kpi_sum ''Rejected Materials'' discover data contracts (kv_fp kv ! i)
             / real (length (contributing discover data contracts (kv_fp kv ! i)))
    \<and> kpi_data_mnummer \<noteq> []
    \<and> diff_OEE d ! i = kv_OEE kv ! i - OEE (hd kpi_data_mnummer)
    \<and> diff_Lead_Time d ! i = kv_Lead_Time kv ! i - Lead_Time (hd kpi_data_mnummer)
    \<and> diff_Malfunction_Duration d ! i
         = kv_Malfunction_Duration kv ! i - Malfunction_Duration (hd kpi_data_mnummer)
    \<and> diff_Rejected_Materials d ! i
         = kv_Rejected_Materials kv ! i - Rejected_Materials (hd kpi_data_mnummer)
    \<and> (\<forall>A B. contributing discover data contracts (kv_fp kv ! i) = [A, B] \<longrightarrow>
          kv_OEE kv ! i = (contract_mean ''OEE'' data A + contract_mean ''OEE'' data B) / 2
        \<and> kv_Lead_Time kv ! i
            = (contract_mean ''Lead Time'' data A + contract_mean ''Lead Time'' data B) / 2
        \<and> kv_Malfunction_Duration kv ! i
            = (contract_mean ''Malfunction Duration'' data A
               + contract_mean ''Malfunction Duration'' data B) / 2
        \<and> kv_Rejected_Materials kv ! i
            = (contract_mean ''Rejected Materials'' data A
               + contract_mean ''Rejected Materials'' data B) / 2)"
proof -
  let ?fp = "kv_fp kv ! i"
  let ?cs = "contributing discover data contracts ?fp"
  from run obtain ex fk where
    base: "extract_footprints discover data ''End Date Actual'' ''Contract'' ''Operation RelNr''
             = Inr ex"
    and proc: "process_contracts discover data ex contracts (Map.empty, Map.empty) = Inr (fk, fc)"
    and fin: "finalize_footprints fk kpi_data_mnummer ex (no_kpi_values, no_diff_to_soll)
                = Inr (kv, d)"
    by (rule analyze_run)
  have fps: "kv_fp kv = live fk ex"
    using fin by (rule finalize_start(1))
  with i have ne: "live fk ex \<noteq> []" by auto
  from finalize_start(2) [OF fin ne]
  have soll: "kpi_data_mnummer \<noteq> []"
    and out: "(kv, d) = finalized fk (hd kpi_data_mnummer) ex no_kpi_values no_diff_to_soll"
    by simp_all
  from i fps have il: "i < length (live fk ex)" by simp
  from out have kv: "kv = fst (finalized fk (hd kpi_data_mnummer) ex no_kpi_values no_diff_to_soll)"
    and d: "d = snd (finalized fk (hd kpi_data_mnummer) ex no_kpi_values no_diff_to_soll)"
    by (metis fst_conv, metis snd_conv)
  have vals:
    "kv_OEE kv ! i = mean_of oee fk ?fp"
    "kv_Lead_Time kv ! i = mean_of lead_time fk ?fp"
    "kv_Malfunction_Duration kv ! i = mean_of malfunction_duration fk ?fp"
    "kv_Rejected_Materials kv ! i = mean_of rejection_count fk ?fp"
    "diff_OEE d ! i = mean_of oee fk ?fp - OEE (hd kpi_data_mnummer)"
    "diff_Lead_Time d ! i = mean_of lead_time fk ?fp - Lead_Time (hd kpi_data_mnummer)"
    "diff_Malfunction_Duration d ! i
       = mean_of malfunction_duration fk ?fp - Malfunction_Duration (hd kpi_data_mnummer)"
    "diff_Rejected_Materials d ! i
       = mean_of rejection_count fk ?fp - Rejected_Materials (hd kpi_data_mnummer)"
    unfolding fps using il
    by (simp_all add: kv d finalized_def no_kpi_values_def no_diff_to_soll_def)
  have mem: "?fp \<in> set (live fk ex)"
    unfolding fps using il by simp
  then have some: "fk ?fp \<noteq> None" and inex: "?fp \<in> set ex"
    by (simp_all add: live_def)
  from inex have m: "0 < count_list ex ?fp"
    using count_list_0_iff [of ex ?fp] by simp
  have fk: "fk ?fp = summarize (map (contract_kpis data)
                       (concat (map (replicate (count_list ex ?fp)) ?cs)))"
    using proc by (rule live_kpis(1))
  with some have cs: "?cs \<noteq> []"
    by auto
  note means = mean_of_summarize [where fk = fk and fp = ?fp and data = data
      and m = "count_list ex ?fp" and cs = ?cs, OF fk m cs]
  have two: "kv_OEE kv ! i = (contract_mean ''OEE'' data A + contract_mean ''OEE'' data B) / 2
        \<and> kv_Lead_Time kv ! i
            = (contract_mean ''Lead Time'' data A + contract_mean ''Lead Time'' data B) / 2
        \<and> kv_Malfunction_Duration kv ! i
            = (contract_mean ''Malfunction Duration'' data A
               + contract_mean ''Malfunction Duration'' data B) / 2
        \<and> kv_Rejected_Materials kv ! i
            = (contract_mean ''Rejected Materials'' data A
               + contract_mean ''Rejected Materials'' data B) / 2"
    if "?cs = [A, B]" for A B
    using means by (simp add: vals that)
  from cs soll means two show ?thesis
    by (simp add: vals kpi_sum_def)
qed

text \<open>
  On the sample data, footprint (A, B) is contributed to by X (OEE 0.9) and Y (OEE 0.7):
  its OEE is 0.8 and, against the baseline 0.75, the difference is 0.05.
\<close>

theorem accumulated_means_witness:
  "analyze_footprints_by_kpi discover_footprints sample_data [''X'', ''Y''] sample_soll
     = Inr (sample_kpi_values, [(''A'', ''B'') \<mapsto> [''X'', ''Y'']], sample_diff_to_soll)
   \<and> 0 < length (kv_fp sample_kpi_values)
   \<and> contributing discover_footprints sample_data [''X'', ''Y''] (kv_fp sample_kpi_values ! 0)
       = [''X'', ''Y'']
   \<and> kv_OEE sample_kpi_values ! 0
       = (contract_mean ''OEE'' sample_data ''X'' + contract_mean ''OEE'' sample_data ''Y'') / 2
   \<and> diff_OEE sample_diff_to_soll ! 0 = kv_OEE sample_kpi_values ! 0 - OEE (hd sample_soll)
   \<and> contract_mean ''OEE'' sample_data ''X'' = 0.9
   \<and> contract_mean ''OEE'' sample_data ''Y'' = 0.7
   \<and> kv_OEE sample_kpi_values ! 0 = 0.8
   \<and> diff_OEE sample_diff_to_soll ! 0 = 0.05"
proof -
  have i: "0 < length (kv_fp sample_kpi_values)"
    by (simp add: sample_kpi_values_def)
  have cs: "contributing discover_footprints sample_data [''X'', ''Y''] (kv_fp sample_kpi_values ! 0)
              = [''X'', ''Y'']"
    by (simp add: contributing_def sample_kpi_values_def sample_fp_X sample_fp_Y footprints_of_def)
  note t = accumulated_means [OF sample_run i]
  from t cs have two: "kv_OEE sample_kpi_values ! 0
       = (contract_mean ''OEE'' sample_data ''X'' + contract_mean ''OEE'' sample_data ''Y'') / 2"
    by blast
  from t have diff: "diff_OEE sample_diff_to_soll ! 0
       = kv_OEE sample_kpi_values ! 0 - OEE (hd sample_soll)"
    by blast
  have x: "contract_mean ''OEE'' sample_data ''X'' = 0.9"
    by (simp add: contract_mean_def sample_rows_X col_mean_def production_row_def)
  have y: "contract_mean ''OEE'' sample_data ''Y'' = 0.7"
    by (simp add: contract_mean_def sample_rows_Y col_mean_def production_row_def)
  have v: "kv_OEE sample_kpi_values ! 0 = 0.8" "diff_OEE sample_diff_to_soll ! 0 = 0.05"
    by (simp_all add: sample_kpi_values_def sample_diff_to_soll_def)
  from sample_run i cs two diff x y v show ?thesis
    by blast
qed

text \<open>
  Claim C2. A footprint that is absent from the baseline footprint set appears in none of
  the three outputs, whatever the contracts' own footprint sets contain: it is not among
  the reported footprints, it has no entry in the footprint-to-contracts map, and every
  entry of the KPI lists and of the difference lists belongs to a reported footprint (the
  lists are parallel to the reported footprints and the labels are theirs).
\<close>

theorem baseline_universe:
  assumes run: "analyze_footprints_by_kpi discover data contracts kpi_data_mnummer = Inr (kv, fc, d)"
    and absent: "fp \<notin> set (footprints_of (extract_footprints discover data
                               ''End Date Actual'' ''Contract'' ''Operation RelNr''))"
  shows "fp \<notin> set (kv_fp kv) \<and> fc fp = None
       \<and> kv_label kv = map fp_label (kv_fp kv) \<and> diff_Footprint d = map fp_label (kv_fp kv)
       \<and> length (kv_OEE kv) = length (kv_fp kv)
       \<and> length (kv_Lead_Time kv) = length (kv_fp kv)
       \<and> length (kv_Malfunction_Duration kv) = length (kv_fp kv)
       \<and> length (kv_Rejected_Materials kv) = length (kv_fp kv)
       \<and> length (diff_OEE d) = length (kv_fp kv)
       \<and> length (diff_Lead_Time d) = length (kv_fp kv)
       \<and> length (diff_Malfunction_Duration d) = length (kv_fp kv)
       \<and> length (diff_Rejected_Materials d) = length (kv_fp kv)"
proof -
  from run obtain ex fk where
    base: "extract_footprints discover data ''End Date Actual'' ''Contract'' ''Operation RelNr''
             = Inr ex"
    and proc: "process_contracts discover data ex contracts (Map.empty, Map.empty) = Inr (fk, fc)"
    and fin: "finalize_footprints fk kpi_data_mnummer ex (no_kpi_values, no_diff_to_soll)
                = Inr (kv, d)"
    by (rule analyze_run)
  from absent base have notin: "fp \<notin> set ex"
    by (simp add: footprints_of_def)
  have "kv_fp kv = live fk ex"
    using fin by (rule finalize_start(1))
  with notin have out: "fp \<notin> set (kv_fp kv)"
    by (simp add: live_def)
  from notin have "count_list ex fp = 0"
    by simp
  with live_kpis(2) [OF proc, of fp] have none: "fc fp = None"
    by simp
  from out none finalize_shape [OF fin] show ?thesis
    by simp
qed

text \<open>
  With the discovery that ignores cases, contract X shows (A, B) but the baseline of
  \<open>interleaved_data\<close> does not: nothing is reported for it.
\<close>

theorem baseline_universe_witness:
  "analyze_footprints_by_kpi flat_follows interleaved_data [''X'', ''Y''] sample_soll
     = Inr (no_kpi_values, Map.empty, no_diff_to_soll)
   \<and> (''A'', ''B'') \<notin> set (footprints_of (extract_footprints flat_follows interleaved_data
                               ''End Date Actual'' ''Contract'' ''Operation RelNr''))
   \<and> (''A'', ''B'') \<in> set (footprints_of (contract_footprints flat_follows interleaved_data ''X''))
   \<and> (''A'', ''B'') \<notin> set (kv_fp no_kpi_values)
   \<and> (Map.empty :: footprint \<rightharpoonup> string list) (''A'', ''B'') = None
   \<and> diff_Footprint no_diff_to_soll = map fp_label (kv_fp no_kpi_values)"
proof -
  have absent: "(''A'', ''B'') \<notin> set (footprints_of (extract_footprints flat_follows interleaved_data
                               ''End Date Actual'' ''Contract'' ''Operation RelNr''))"
    by (simp add: interleaved_extracted footprints_of_def)
  have shown: "(''A'', ''B'') \<in> set (footprints_of (contract_footprints flat_follows interleaved_data ''X''))"
    by (simp add: interleaved_fp_X footprints_of_def)
  from baseline_universe [OF interleaved_run absent] interleaved_run absent shown
  show ?thesis by blast
qed

lemma attribute_removeAll:
  "fp \<notin> set dfg \<Longrightarrow>
   attribute_footprints kpi_data dfg c (removeAll fp fps) acc
     = attribute_footprints kpi_data dfg c fps acc"
proof (induction fps arbitrary: acc)
  case Nil
  show ?case by simp
next
  case (Cons x rest)
  obtain fk fc where acc: "acc = (fk, fc)" by (cases acc)
  show ?case
    unfolding acc using Cons.prems Cons.IH [OF Cons.prems]
    by (auto simp: Let_def split: sum.splits)
qed

lemma process_removeAll:
  "\<forall>c \<in> set contracts. fp \<notin> set (footprints_of (contract_footprints discover data c)) \<Longrightarrow>
   process_contracts discover data (removeAll fp extracted) contracts acc
     = process_contracts discover data extracted contracts acc"
proof (induction contracts arbitrary: acc)
  case Nil
  show ?case by simp
next
  case (Cons c rest)
  then have here: "fp \<notin> set (footprints_of (contract_footprints discover data c))"
    and later: "\<forall>c \<in> set rest. fp \<notin> set (footprints_of (contract_footprints discover data c))"
    by simp_all
  show ?case
  proof (cases "contract_footprints discover data c")
    case (Inl e)
    then show ?thesis by simp
  next
    case (Inr dfg)
    with here have "fp \<notin> set dfg"
      by (simp add: footprints_of_def)
    then show ?thesis
      by (simp add: Inr attribute_removeAll Cons.IH [OF later] split: sum.splits)
  qed
qed

lemma finalize_removeAll:
  "fk fp = None \<Longrightarrow>
   finalize_footprints fk mnum (removeAll fp fps) out = finalize_footprints fk mnum fps out"
proof (induction fps arbitrary: out)
  case Nil
  show ?case by simp
next
  case (Cons x rest)
  obtain kv d where out: "out = (kv, d)" by (cases out)
  show ?case
    unfolding out using Cons.prems Cons.IH [OF Cons.prems]
    by (auto simp: Let_def split: option.splits sum.splits)
qed

lemma no_contribution:
  assumes "\<forall>c \<in> set contracts. fp \<notin> set (footprints_of (contract_footprints discover data c))"
  shows "contributing discover data contracts fp = []"
  using assms by (simp add: contributing_def)

text \<open>
  Claim C7. A footprint to which no contract contributes is silently absent from the
  outputs. The whole outcome, result or error, is the one the run has with the footprint
  struck from the baseline list, so its omission raises nothing and leaves no zero, null
  or default entry; and in a successful run of \<^verbatim>\<open>analyze_footprints_by_kpi\<close> it is not among
  the reported footprints and has no entry in the footprint-to-contracts map.
\<close>

theorem silent_omission:
  assumes none: "\<forall>c \<in> set contracts. fp \<notin> set (footprints_of (contract_footprints discover data c))"
  shows "accumulate discover data contracts kpi_data_mnummer extracted_footprints
           = accumulate discover data contracts kpi_data_mnummer
               (removeAll fp extracted_footprints)
       \<and> (\<forall>kv fc d.
             analyze_footprints_by_kpi discover data contracts kpi_data_mnummer = Inr (kv, fc, d)
             \<longrightarrow> fp \<notin> set (kv_fp kv) \<and> fc fp = None)"
proof -
  have contrib: "contributing discover data contracts fp = []"
    using none by (rule no_contribution)
  have unseen: "fk fp = None \<and> fc fp = None"
    if "process_contracts discover data ex contracts (Map.empty, Map.empty) = Inr (fk, fc)"
    for ex fk fc
    using live_kpis [OF that, of fp] by (simp add: contrib)
  have same: "accumulate discover data contracts kpi_data_mnummer extracted_footprints
           = accumulate discover data contracts kpi_data_mnummer
               (removeAll fp extracted_footprints)"
  proof (cases "process_contracts discover data extracted_footprints contracts
                  (Map.empty, Map.empty)")
    case (Inl e)
    then show ?thesis
      by (simp add: accumulate_def process_removeAll [OF none])
  next
    case (Inr acc)
    obtain fk fc where acc: "acc = (fk, fc)" by (cases acc)
    from Inr acc unseen have "fk fp = None" by blast
    with Inr acc show ?thesis
      by (simp add: accumulate_def process_removeAll [OF none] finalize_removeAll)
  qed
  have absent: "fp \<notin> set (kv_fp kv) \<and> fc fp = None"
    if run: "analyze_footprints_by_kpi discover data contracts kpi_data_mnummer = Inr (kv, fc, d)"
    for kv fc d
  proof -
      from run obtain ex fk where
      base: "extract_footprints discover data ''End Date Actual'' ''Contract'' ''Operation RelNr''
               = Inr ex"
      and proc: "process_contracts discover data ex contracts (Map.empty, Map.empty) = Inr (fk, fc)"
      and fin: "finalize_footprints fk kpi_data_mnummer ex (no_kpi_values, no_diff_to_soll)
                  = Inr (kv, d)"
      by (rule analyze_run)
    from unseen [OF proc] have "fk fp = None" and fc: "fc fp = None" by simp_all
    moreover have "kv_fp kv = live fk ex"
      using fin by (rule finalize_start(1))
    ultimately show ?thesis
      by (simp add: live_def)
  qed
  from same absent show ?thesis by blast
qed

text \<open>
  On the sample data analysed for X and Y only, (B, C) is in the baseline (contract Z shows
  it) and receives no contribution: the result is the one without it.
\<close>

theorem silent_omission_witness:
  "(''B'', ''C'') \<in> set (footprints_of (extract_footprints discover_footprints sample_data
                            ''End Date Actual'' ''Contract'' ''Operation RelNr''))
   \<and> (''B'', ''C'') \<notin> set (footprints_of (contract_footprints discover_footprints sample_data ''X''))
   \<and> (''B'', ''C'') \<notin> set (footprints_of (contract_footprints discover_footprints sample_data ''Y''))
   \<and> accumulate discover_footprints sample_data [''X'', ''Y''] sample_soll
        [(''A'', ''B''), (''B'', ''C'')]
       = accumulate discover_footprints sample_data [''X'', ''Y''] sample_soll
           (removeAll (''B'', ''C'') [(''A'', ''B''), (''B'', ''C'')])
   \<and> analyze_footprints_by_kpi discover_footprints sample_data [''X'', ''Y''] sample_soll
       = Inr (sample_kpi_values, [(''A'', ''B'') \<mapsto> [''X'', ''Y'']], sample_diff_to_soll)
   \<and> (''B'', ''C'') \<notin> set (kv_fp sample_kpi_values)
   \<and> [(''A'', ''B'') \<mapsto> [''X'', ''Y'']] (''B'', ''C'') = None"
proof -
  have inbase: "(''B'', ''C'') \<in> set (footprints_of (extract_footprints discover_footprints sample_data
                            ''End Date Actual'' ''Contract'' ''Operation RelNr''))"
    by (simp add: sample_extracted footprints_of_def)
  have x: "(''B'', ''C'') \<notin> set (footprints_of (contract_footprints discover_footprints sample_data ''X''))"
    and y: "(''B'', ''C'') \<notin> set (footprints_of (contract_footprints discover_footprints sample_data ''Y''))"
    by (simp_all add: sample_fp_X sample_fp_Y footprints_of_def)
  then have none: "\<forall>c \<in> set [''X'', ''Y''].
      (''B'', ''C'') \<notin> set (footprints_of (contract_footprints discover_footprints sample_data c))"
    by simp
  note t = silent_omission [OF none, of sample_soll "[(''A'', ''B''), (''B'', ''C'')]"]
  from t have same: "accumulate discover_footprints sample_data [''X'', ''Y''] sample_soll
        [(''A'', ''B''), (''B'', ''C'')]
       = accumulate discover_footprints sample_data [''X'', ''Y''] sample_soll
           (removeAll (''B'', ''C'') [(''A'', ''B''), (''B'', ''C'')])"
    by blast
  from t sample_run have gone: "(''B'', ''C'') \<notin> set (kv_fp sample_kpi_values)
      \<and> [(''A'', ''B'') \<mapsto> [''X'', ''Y'']] (''B'', ''C'') = None"
    by blast
  from inbase x y same sample_run gone show ?thesis
    by blast
qed

lemma attribute_no_footprints:
  "attribute_footprints kpi_data [] c fps acc = Inr acc"
proof (induction fps)
  case Nil
  show ?case by simp
next
  case (Cons x rest)
  obtain fk fc where acc: "acc = (fk, fc)" by (cases acc)
  from Cons show ?case by (simp add: acc)
qed

lemma process_append:
  "process_contracts discover data extracted (xs @ ys) acc =
     (case process_contracts discover data extracted xs acc of
        Inl e \<Rightarrow> Inl e
      | Inr acc' \<Rightarrow> process_contracts discover data extracted ys acc')"
  by (induction xs arbitrary: acc) (simp_all add: Let_def split: sum.splits)

lemma no_rows_empty_log:
  assumes "contract_kpi_data data c = []"
  shows "contract_footprints discover data c = discover []"
proof -
  have rows: "contract_rows data c = []"
    using assms by (simp add: contract_kpi_data_def Let_def split: if_splits)
  show ?thesis
    by (simp add: contract_footprints_def rows rename_columns_def)
qed

lemma attribute_empty_table:
  "fp \<in> set dfg \<Longrightarrow> fp \<in> set fps \<Longrightarrow> attribute_footprints [] dfg c fps acc = Inl IndexError"
proof (induction fps arbitrary: acc)
  case Nil
  then show ?case by simp
next
  case (Cons x rest)
  obtain fk fc where acc: "acc = (fk, fc)" by (cases acc)
  show ?case
  proof (cases "x \<in> set dfg")
    case True
    then show ?thesis by (simp add: acc iloc0_def)
  next
    case False
    with Cons.prems have "fp \<in> set rest" by auto
    from Cons.IH [OF Cons.prems(1) this] False show ?thesis
      by (simp add: acc)
  qed
qed

text \<open>
  Claim C9 says that a contract whose KPI table has no rows is skipped rather than failing.
  With a discovery that raises on a log without events, as the library does, listing
  contract W, of which the sample data has no row, makes the analysis fail.
\<close>

theorem empty_contract_counterexample:
  "contract_kpi_data sample_data ''W'' = []
   \<and> analyze_footprints_by_kpi discover_footprints sample_data [''X'', ''W'', ''Y''] sample_soll
       = Inl ValueError
   \<and> analyze_footprints_by_kpi discover_footprints sample_data [''X'', ''Y''] sample_soll
       = Inr (sample_kpi_values, [(''A'', ''B'') \<mapsto> [''X'', ''Y'']], sample_diff_to_soll)"
proof -
  have empty: "contract_kpi_data sample_data ''W'' = []"
    by (simp add: contract_kpi_data_def contract_rows_def sample_data_def production_row_def)
  have w: "contract_footprints discover_footprints sample_data ''W'' = Inl ValueError"
    by (simp add: no_rows_empty_log [OF empty] discover_footprints_def)
  have "analyze_footprints_by_kpi discover_footprints sample_data [''X'', ''W'', ''Y''] sample_soll
       = Inl ValueError"
    by (simp add: analyze_footprints_by_kpi_def accumulate_def sample_extracted sample_fp_X
          sample_kpi_X w iloc0_def)
  with empty sample_run show ?thesis
    by simp
qed

text \<open>
  Claim C9, as the code has it. When the KPI table of a contract has no rows, the data
  holds no row of the contract and the discovery is called on its empty event log; what
  happens then depends on the discovery. If it returns no footprints, the contract is
  skipped: the pass of the inner loop returns the accumulators unchanged, the remaining
  contracts are processed as if the contract were not listed, and the analysis returns
  what it returns without it. If it raises, the loop over the contracts stops with that
  error and the analysis returns no result. If it reported a footprint of the baseline,
  the read of the empty table would raise IndexError.
\<close>

theorem empty_contract_depends_on_discovery:
  assumes empty: "contract_kpi_data data c = []"
  shows "contract_footprints discover data c = discover []
       \<and> (discover [] = Inr [] \<longrightarrow>
            attribute_footprints (contract_kpi_data data c) [] c extracted_footprints acc = Inr acc
          \<and> process_contracts discover data extracted_footprints (before @ c # after) acc
              = process_contracts discover data extracted_footprints (before @ after) acc
          \<and> analyze_footprints_by_kpi discover data (before @ c # after) kpi_data_mnummer
              = analyze_footprints_by_kpi discover data (before @ after) kpi_data_mnummer)
       \<and> (\<forall>e. discover [] = Inl e \<longrightarrow>
            process_contracts discover data extracted_footprints (c # after) acc = Inl e
          \<and> (\<forall>r. analyze_footprints_by_kpi discover data (before @ c # after) kpi_data_mnummer
                   \<noteq> Inr r))
       \<and> (\<forall>dfg fp. discover [] = Inr dfg \<and> fp \<in> set dfg \<and> fp \<in> set extracted_footprints \<longrightarrow>
            process_contracts discover data extracted_footprints (c # after) acc
              = Inl IndexError)"
proof -
  have log: "contract_footprints discover data c = discover []"
    using empty by (rule no_rows_empty_log)
  have quiet: "attribute_footprints (contract_kpi_data data c) [] c extracted_footprints acc = Inr acc
          \<and> process_contracts discover data extracted_footprints (before @ c # after) acc
              = process_contracts discover data extracted_footprints (before @ after) acc
          \<and> analyze_footprints_by_kpi discover data (before @ c # after) kpi_data_mnummer
              = analyze_footprints_by_kpi discover data (before @ after) kpi_data_mnummer"
    if none: "discover [] = Inr []"
  proof -
    have one: "attribute_footprints (contract_kpi_data data c) [] c ex acc' = Inr acc'" for ex acc'
      by (rule attribute_no_footprints)
    have skip: "process_contracts discover data ex (c # after) acc'
                  = process_contracts discover data ex after acc'" for ex acc'
      by (simp add: log none one)
    have proc: "process_contracts discover data ex (before @ c # after) acc'
             = process_contracts discover data ex (before @ after) acc'" for ex acc'
      unfolding process_append [of discover data ex before] skip ..
    show ?thesis
      by (simp add: one proc analyze_footprints_by_kpi_def accumulate_def split: sum.splits)
  qed
  have raises: "process_contracts discover data extracted_footprints (c # after) acc = Inl e
          \<and> (\<forall>r. analyze_footprints_by_kpi discover data (before @ c # after) kpi_data_mnummer
                   \<noteq> Inr r)"
    if err: "discover [] = Inl e" for e
  proof -
    have stop: "process_contracts discover data ex (c # after) acc' = Inl e" for ex acc'
      by (simp add: log err)
    have "analyze_footprints_by_kpi discover data (before @ c # after) kpi_data_mnummer \<noteq> Inr r"
      for r
    proof
      assume run: "analyze_footprints_by_kpi discover data (before @ c # after) kpi_data_mnummer
                     = Inr r"
      obtain kv fc d where r: "r = (kv, fc, d)" by (cases r)
      from run [unfolded r] obtain ex fk where
        "process_contracts discover data ex (before @ c # after) (Map.empty, Map.empty)
           = Inr (fk, fc)"
        by (rule analyze_run)
      then show False
        by (simp add: process_append [of discover data ex before] stop
              del: process_contracts.simps split: sum.splits)
    qed
    with stop show ?thesis by blast
  qed
  have index: "process_contracts discover data extracted_footprints (c # after) acc = Inl IndexError"
    if "discover [] = Inr dfg" "fp \<in> set dfg" "fp \<in> set extracted_footprints" for dfg fp
    using that by (simp add: log empty attribute_empty_table)
  from log quiet raises index show ?thesis
    by blast
qed

text \<open>
  The sample data has no row of contract W. With a discovery that accepts the empty log,
  listing W between X and Y changes nothing; with the one that raises, the loop stops with
  ValueError; with one that reports (A, B) for every log, it stops with IndexError.
\<close>

theorem empty_contract_depends_on_discovery_witness:
  "contract_kpi_data sample_data ''W'' = []
   \<and> quiet_follows [] = Inr []
   \<and> analyze_footprints_by_kpi quiet_follows sample_data ([''X''] @ ''W'' # [''Y'']) sample_soll
       = analyze_footprints_by_kpi quiet_follows sample_data ([''X''] @ [''Y'']) sample_soll
   \<and> discover_footprints [] = Inl ValueError
   \<and> process_contracts discover_footprints sample_data [(''A'', ''B'')] (''W'' # [''Y''])
        (Map.empty, Map.empty) = Inl ValueError
   \<and> (\<lambda>evs. Inr [(''A'', ''B'')]) ([] :: event list) = (Inr [(''A'', ''B'')] :: py_error + footprint list)
   \<and> (''A'', ''B'') \<in> set [(''A'', ''B'')]
   \<and> process_contracts (\<lambda>evs. Inr [(''A'', ''B'')]) sample_data [(''A'', ''B'')] (''W'' # [''Y''])
        (Map.empty, Map.empty) = Inl IndexError"
proof -
  have empty: "contract_kpi_data sample_data ''W'' = []"
    by (simp add: contract_kpi_data_def contract_rows_def sample_data_def production_row_def)
  have q: "quiet_follows [] = Inr []"
    by (simp add: quiet_follows_def directly_follows_def)
  have r: "discover_footprints [] = Inl ValueError"
    by (simp add: discover_footprints_def)
  have k: "(\<lambda>evs. Inr [(''A'', ''B'')]) ([] :: event list)
             = (Inr [(''A'', ''B'')] :: py_error + footprint list)"
    by simp
  have m: "(''A'', ''B'') \<in> set [(''A'', ''B'')]"
    by simp
  note t1 = empty_contract_depends_on_discovery [where discover = quiet_follows
      and data = sample_data and c = "''W''" and before = "[''X'']" and after = "[''Y'']"
      and kpi_data_mnummer = sample_soll and extracted_footprints = "[(''A'', ''B'')]"
      and acc = "(Map.empty, Map.empty)", OF empty]
  note t2 = empty_contract_depends_on_discovery [where discover = discover_footprints
      and data = sample_data and c = "''W''" and before = "[''X'']" and after = "[''Y'']"
      and kpi_data_mnummer = sample_soll and extracted_footprints = "[(''A'', ''B'')]"
      and acc = "(Map.empty, Map.empty)", OF empty]
  note t3 = empty_contract_depends_on_discovery [where discover = "\<lambda>evs. Inr [(''A'', ''B'')]"
      and data = sample_data and c = "''W''" and before = "[''X'']" and after = "[''Y'']"
      and kpi_data_mnummer = sample_soll and extracted_footprints = "[(''A'', ''B'')]"
      and acc = "(Map.empty, Map.empty)", OF empty]
  from t1 q have a: "analyze_footprints_by_kpi quiet_follows sample_data
        ([''X''] @ ''W'' # [''Y'']) sample_soll
       = analyze_footprints_by_kpi quiet_follows sample_data ([''X''] @ [''Y'']) sample_soll"
    by blast
  from t2 r have b: "process_contracts discover_footprints sample_data [(''A'', ''B'')]
        (''W'' # [''Y'']) (Map.empty, Map.empty) = Inl ValueError"
    by blast
  from t3 k m have c: "process_contracts (\<lambda>evs. Inr [(''A'', ''B'')]) sample_data [(''A'', ''B'')]
        (''W'' # [''Y'']) (Map.empty, Map.empty) = Inl IndexError"
    by blast
  from empty q r k m a b c show ?thesis
    by blast
qed

text \<open>
  Claim C8 says that \<^verbatim>\<open>extract_footprints\<close> removes the events whose value in the column
  named by \<open>time\<close> is missing. The filter reads the column \<^verbatim>\<open>'End Date Actual'\<close> whatever
  \<open>time\<close> is: with \<open>time\<close> set to \<^verbatim>\<open>'Start Date Actual'\<close>, the operation without a start
  date reaches the discovery and contributes the pair (A, B).
\<close>

theorem missing_time_value_counterexample:
  "discovery_input late_start_data ''Start Date Actual'' ''Contract'' ''Operation RelNr''
     = [\<lparr>time_timestamp = Some 1, case_concept_name = ''X'', concept_name = ''A''\<rparr>,
        \<lparr>time_timestamp = None, case_concept_name = ''X'', concept_name = ''B''\<rparr>]
   \<and> extract_footprints discover_footprints late_start_data
       ''Start Date Actual'' ''Contract'' ''Operation RelNr'' = Inr [(''A'', ''B'')]"
  by (simp add: extract_footprints_def discovery_input_def rename_columns_def
        late_start_data_def production_row_def discover_footprints_def directly_follows_def by_timestamp_def)

text \<open>
  Claim C8, as the code has it. Whatever column names are passed, a row whose
  \<^verbatim>\<open>'End Date Actual'\<close> is missing contributes nothing: the extracted footprints are the
  same with and without it, and every event handed to the discovery comes from a row with
  an end date. When \<open>time\<close> is \<^verbatim>\<open>'End Date Actual'\<close>, every such event has a timestamp.
\<close>

theorem missing_end_date_never_contributes:
  "(date_col r ''End Date Actual'' = None \<longrightarrow>
      extract_footprints discover (before @ r # after) time case_id activity
        = extract_footprints discover (before @ after) time case_id activity)
   \<and> (\<forall>e \<in> set (discovery_input data time case_id activity).
        \<exists>r' \<in> set data. date_col r' ''End Date Actual'' \<noteq> None
          \<and> e = \<lparr>time_timestamp = date_col r' time, case_concept_name = text_col r' case_id,
                   concept_name = text_col r' activity\<rparr>)
   \<and> (\<forall>e \<in> set (discovery_input data ''End Date Actual'' case_id activity).
        time_timestamp e \<noteq> None)"
  by (auto simp: extract_footprints_def discovery_input_def rename_columns_def)

text \<open>
  A third row of contract X without an end date, put between the two of
  \<open>late_start_data\<close>, changes nothing; read by end date, both events have a timestamp.
\<close>

theorem missing_end_date_never_contributes_witness:
  "date_col (production_row ''X'' ''C'' (Some 2) None 0.9 10 0 1) ''End Date Actual'' = None
   \<and> extract_footprints discover_footprints
        ([production_row ''X'' ''A'' (Some 1) (Some 2) 0.9 10 0 1]
           @ production_row ''X'' ''C'' (Some 2) None 0.9 10 0 1
           # [production_row ''X'' ''B'' None (Some 3) 0.9 10 0 1])
        ''End Date Actual'' ''Contract'' ''Operation RelNr''
       = extract_footprints discover_footprints
           ([production_row ''X'' ''A'' (Some 1) (Some 2) 0.9 10 0 1]
              @ [production_row ''X'' ''B'' None (Some 3) 0.9 10 0 1])
           ''End Date Actual'' ''Contract'' ''Operation RelNr''
   \<and> extract_footprints discover_footprints
           ([production_row ''X'' ''A'' (Some 1) (Some 2) 0.9 10 0 1]
              @ [production_row ''X'' ''B'' None (Some 3) 0.9 10 0 1])
           ''End Date Actual'' ''Contract'' ''Operation RelNr'' = Inr [(''A'', ''B'')]
   \<and> map time_timestamp
        (discovery_input late_start_data ''End Date Actual'' ''Contract'' ''Operation RelNr'')
       = [Some 2, Some 3]"
proof -
  have gone: "date_col (production_row ''X'' ''C'' (Some 2) None 0.9 10 0 1) ''End Date Actual''
                = None"
    by (simp add: production_row_def)
  have res: "extract_footprints discover_footprints
           ([production_row ''X'' ''A'' (Some 1) (Some 2) 0.9 10 0 1]
              @ [production_row ''X'' ''B'' None (Some 3) 0.9 10 0 1])
           ''End Date Actual'' ''Contract'' ''Operation RelNr'' = Inr [(''A'', ''B'')]"
    by (simp add: extract_footprints_def discovery_input_def rename_columns_def
          production_row_def discover_footprints_def directly_follows_def by_timestamp_def)
  have ts: "map time_timestamp
        (discovery_input late_start_data ''End Date Actual'' ''Contract'' ''Operation RelNr'')
       = [Some 2, Some 3]"
    by (simp add: discovery_input_def rename_columns_def late_start_data_def production_row_def)
  from missing_end_date_never_contributes
         [where r = "production_row ''X'' ''C'' (Some 2) None 0.9 10 0 1"
            and discover = discover_footprints
            and before = "[production_row ''X'' ''A'' (Some 1) (Some 2) 0.9 10 0 1]"
            and after = "[production_row ''X'' ''B'' None (Some 3) 0.9 10 0 1]"
            and time = "''End Date Actual''" and case_id = "''Contract''"
            and activity = "''Operation RelNr''" and data = late_start_data]
       gone res ts
  show ?thesis by blast
qed

end
